theory Spec2Isabelle
  imports Complex_Main "HOL-Library.Word" "HOL-Library.Multiset"
begin

section \<open>The PassOP backend (backend/server.js)\<close>

text \<open>
  The server keeps two MongoDB collections, \<open>users\<close> and \<open>passwords\<close>, behind six
  Express handlers. Each handler is modelled as a function from the request and the
  database to the response and the new database. A request body field is any JSON
  value, or \<open>undefined\<close> when the field is absent; where the handler calls a string
  method on a value that has none, the \<open>TypeError\<close> reaches the handler's \<open>catch\<close>, which
  answers 500. The libraries the handlers call (bson's ObjectId, jsonwebtoken,
  bcryptjs) are not part of the repository: they are the fields of a record \<open>lib\<close> that
  every handler takes, so each theorem holds for any behaviour of them. The values the
  environment supplies during a request (the readings of \<open>new Date()\<close>, the \<open>_id\<close> the
  driver generates for an insert) are explicit arguments. Every store call is answered
  by the store: an outage, which the handlers also turn into a 500, is not modelled. A
  handler runs from request to response without another request in between.
\<close>

subsection \<open>JavaScript strings\<close>

text \<open>
  A string is a list of code units; HOL's \<open>char\<close> covers the code units U+0000 to
  U+00FF. \<open>is_space\<close> is the white space of \<open>String.prototype.trim\<close> and of the
  regular expression class \<open>\s\<close> in that range.
\<close>

definition is_space :: "char \<Rightarrow> bool" where
  "is_space c =
     (c \<in> {CHR 0x09, CHR 0x0A, CHR 0x0B, CHR 0x0C, CHR 0x0D, CHR 0x20, CHR 0xA0})"

definition trim :: "string \<Rightarrow> string" where
  "trim s = rev (dropWhile is_space (rev (dropWhile is_space s)))"

definition lower_char :: "char \<Rightarrow> char" where
  "lower_char c =
     (let n = (of_char c :: nat)
      in if (65 \<le> n \<and> n \<le> 90) \<or> (192 \<le> n \<and> n \<le> 222 \<and> n \<noteq> 215)
         then char_of (n + 32) else c)"

definition toLowerCase :: "string \<Rightarrow> string" where
  "toLowerCase s = map lower_char s"

text \<open>\<open>authHeader.split(" ")\<close>: the pieces between single separator characters.\<close>

fun split :: "char \<Rightarrow> string \<Rightarrow> string list" where
  "split sep [] = [[]]"
| "split sep (c # cs) =
     (if c = sep then [] # split sep cs
      else (case split sep cs of
              [] \<Rightarrow> [[c]]
            | w # ws \<Rightarrow> (c # w) # ws))"

text \<open>\<open>!token\<close> for a token that is a string or \<open>undefined\<close>.\<close>

fun falsy :: "string option \<Rightarrow> bool" where
  "falsy None = True"
| "falsy (Some s) = (s = [])"

subsection \<open>JavaScript values\<close>

text \<open>
  What \<open>JSON.parse\<close> can put into a field of \<open>req.body\<close>, and \<open>undefined\<close> for a field
  that is not there. A number is given by its value; an object by its properties.
\<close>

datatype jsval =
  JUndefined
| JNull
| JBool bool
| JNum rat
| JStr string
| JArr "jsval list"
| JObj "(string \<times> jsval) list"

text \<open>The operator \<open>!\<close>: true of \<open>undefined\<close>, \<open>null\<close>, \<open>false\<close>, zero and the empty string.\<close>

fun js_not :: "jsval \<Rightarrow> bool" where
  "js_not JUndefined = True"
| "js_not JNull = True"
| "js_not (JBool b) = (b = False)"
| "js_not (JNum x) = (x = 0)"
| "js_not (JStr s) = (s = [])"
| "js_not (JArr xs) = False"
| "js_not (JObj kvs) = False"

text \<open>
  What a handler's \<open>try\<close> block can throw before or between its store calls. Only a
  string has the methods \<open>trim\<close> and \<open>toLowerCase\<close>: on any other value the property is
  missing or, in an object parsed from JSON, not a function, and the call throws a
  \<open>TypeError\<close>.
\<close>

datatype js_error = TypeError | IllegalArguments

fun js_trim :: "jsval \<Rightarrow> js_error + string" where
  "js_trim (JStr s) = Inr (trim s)"
| "js_trim v = Inl TypeError"

fun js_toLowerCase :: "jsval \<Rightarrow> js_error + string" where
  "js_toLowerCase (JStr s) = Inr (toLowerCase s)"
| "js_toLowerCase v = Inl TypeError"

text \<open>
  The property \<open>length\<close> of a value that is not \<open>null\<close> or \<open>undefined\<close>: the length of a
  string or an array, an object's own property of that name, and \<open>undefined\<close> otherwise.
\<close>

fun js_length :: "jsval \<Rightarrow> jsval" where
  "js_length (JStr s) = JNum (of_nat (length s))"
| "js_length (JArr xs) = JNum (of_nat (length xs))"
| "js_length (JObj kvs) = (case map_of kvs ''length'' of Some v \<Rightarrow> v | None \<Rightarrow> JUndefined)"
| "js_length v = JUndefined"

subsection \<open>Documents, the database and responses\<close>

type_synonym objectid = "96 word"
type_synonym timestamp = nat

record user_doc =
  u_id :: objectid
  u_username :: string
  u_email :: string
  u_password :: string
  u_createdAt :: timestamp

text \<open>The password of a credential record is stored as it was sent, whatever its type.\<close>

record password_doc =
  p_id :: objectid
  p_site :: string
  p_username :: string
  p_password :: jsval
  p_userId :: string
  p_createdAt :: timestamp
  p_updatedAt :: timestamp

text \<open>
  Every call on a collection is recorded in \<open>calls\<close>, in the order the handler
  awaits them.
\<close>

datatype store_call =
  UsersFindOne | UsersInsertOne
| PasswordsFind | PasswordsFindOne | PasswordsInsertOne | PasswordsUpdateOne
| PasswordsDeleteOne

record db =
  users :: "user_doc list"
  passwords :: "password_doc list"
  calls :: "store_call list"

definition empty_db :: db where
  "empty_db = \<lparr>users = [], passwords = [], calls = []\<rparr>"

text \<open>The decoded token payload that \<open>verifyToken\<close> stores in \<open>req.user\<close>.\<close>

record jwt_payload =
  jwt_id :: string
  jwt_username :: string

text \<open>The \<open>name\<close> of the error that \<open>jwt.verify\<close> throws.\<close>

datatype jwt_error = TokenExpiredError | JsonWebTokenError | NotBeforeError

text \<open>
  \<open>ObjectId_new s\<close> is the value of \<open>new ObjectId(s)\<close>, and \<open>None\<close> where the constructor
  throws, which is where \<open>ObjectId.isValid(s)\<close> is false. \<open>bcrypt_hash\<close> and
  \<open>bcrypt_compare\<close> are \<open>bcrypt.hash\<close> (with the twelve salt rounds of the register
  handler and the salt drawn for this request) and \<open>bcrypt.compare\<close> on strings.
  \<open>ToString\<close> and \<open>ToNumber\<close> are the language's own conversions of a value to a string
  and to a number (\<open>None\<close> for \<open>NaN\<close>); they are taken as given for the values on which
  the definitions below do not spell them out.
\<close>

record lib =
  ObjectId_new :: "string \<Rightarrow> objectid option"
  toHexString :: "objectid \<Rightarrow> string"
  jwt_verify :: "string \<Rightarrow> jwt_error + jwt_payload"
  jwt_sign :: "jwt_payload \<Rightarrow> string"
  bcrypt_hash :: "string \<Rightarrow> string"
  bcrypt_compare :: "string \<Rightarrow> string \<Rightarrow> bool"
  ToString :: "jsval \<Rightarrow> js_error + string"
  ToNumber :: "jsval \<Rightarrow> js_error + rat option"

datatype body =
  Msg bool string
| Docs "password_doc list"
| Inserted objectid string
| Registered string objectid
| LoggedIn string string string string string

datatype response = Response (status: nat) (body: body)

subsection \<open>Conversions and comparisons\<close>

definition js_ToString :: "lib \<Rightarrow> jsval \<Rightarrow> js_error + string" where
  "js_ToString l v = (case v of JStr s \<Rightarrow> Inr s | _ \<Rightarrow> ToString l v)"

definition js_ToNumber :: "lib \<Rightarrow> jsval \<Rightarrow> js_error + rat option" where
  "js_ToNumber l v =
     (case v of
        JUndefined \<Rightarrow> Inr None
      | JNull \<Rightarrow> Inr (Some 0)
      | JBool b \<Rightarrow> Inr (Some (if b then 1 else 0))
      | JNum x \<Rightarrow> Inr (Some x)
      | _ \<Rightarrow> ToNumber l v)"

text \<open>\<open>v < n\<close> and \<open>v >= n\<close> for a number \<open>n\<close>: false when \<open>v\<close> converts to \<open>NaN\<close>.\<close>

definition js_lt :: "lib \<Rightarrow> jsval \<Rightarrow> rat \<Rightarrow> js_error + bool" where
  "js_lt l v n =
     (case js_ToNumber l v of
        Inl err \<Rightarrow> Inl err
      | Inr None \<Rightarrow> Inr False
      | Inr (Some x) \<Rightarrow> Inr (x < n))"

definition js_ge :: "lib \<Rightarrow> jsval \<Rightarrow> rat \<Rightarrow> js_error + bool" where
  "js_ge l v n =
     (case js_ToNumber l v of
        Inl err \<Rightarrow> Inl err
      | Inr None \<Rightarrow> Inr False
      | Inr (Some x) \<Rightarrow> Inr (n \<le> x))"

subsection \<open>Input validation helpers\<close>

text \<open>
  \<open>emailRegex\<close> is \<open>/^[^\s@]+@[^\s@]+\.[^\s@]+$/\<close> tested on a string. The first run of
  \<open>[^\s@]\<close> ends at the first character outside the class, which must be the \<open>@\<close>; what
  follows must stay inside the class and hold a dot that is neither its first nor its
  last character.
\<close>

definition atom_char :: "char \<Rightarrow> bool" where
  "atom_char c = (\<not> is_space c \<and> c \<noteq> CHR ''@'')"

definition emailRegex :: "string \<Rightarrow> bool" where
  "emailRegex email =
     (case dropWhile atom_char email of
        [] \<Rightarrow> False
      | c # domain \<Rightarrow>
          c = CHR ''@'' \<and> takeWhile atom_char email \<noteq> [] \<and> list_all atom_char domain
          \<and> CHR ''.'' \<in> set (butlast (tl domain)))"

text \<open>\<open>emailRegex.test(email)\<close> converts its argument to a string first.\<close>

definition validateEmail :: "lib \<Rightarrow> jsval \<Rightarrow> js_error + bool" where
  "validateEmail l email =
     (case js_ToString l email of
        Inl err \<Rightarrow> Inl err
      | Inr s \<Rightarrow> Inr (emailRegex s))"

text \<open>\<open>password && password.length >= 6\<close>, as the test \<open>!validatePassword(password)\<close> reads it.\<close>

definition validatePassword :: "lib \<Rightarrow> jsval \<Rightarrow> js_error + bool" where
  "validatePassword l password =
     (if js_not password then Inr False else js_ge l (js_length password) 6)"

text \<open>\<open>username && username.trim().length >= 2\<close>\<close>

definition validateUsername :: "jsval \<Rightarrow> js_error + bool" where
  "validateUsername username =
     (if js_not username then Inr False
      else (case js_trim username of
              Inl err \<Rightarrow> Inl err
            | Inr u \<Rightarrow> Inr (2 \<le> length u)))"

subsection \<open>Store calls\<close>

definition users_findOne :: "(user_doc \<Rightarrow> bool) \<Rightarrow> db \<Rightarrow> user_doc option \<times> db" where
  "users_findOne q d = (find q (users d), d\<lparr>calls := calls d @ [UsersFindOne]\<rparr>)"

text \<open>An insert whose \<open>_id\<close> is already in the collection throws a duplicate key error.\<close>

definition users_insertOne :: "user_doc \<Rightarrow> db \<Rightarrow> (objectid option) \<times> db" where
  "users_insertOne doc d =
     (if u_id doc \<in> set (map u_id (users d))
      then (None, d\<lparr>calls := calls d @ [UsersInsertOne]\<rparr>)
      else (Some (u_id doc),
            d\<lparr>users := users d @ [doc], calls := calls d @ [UsersInsertOne]\<rparr>))"

definition passwords_findOne ::
  "(password_doc \<Rightarrow> bool) \<Rightarrow> db \<Rightarrow> password_doc option \<times> db" where
  "passwords_findOne q d = (find q (passwords d), d\<lparr>calls := calls d @ [PasswordsFindOne]\<rparr>)"

text \<open>
  \<open>find(q).sort({createdAt: -1}).toArray()\<close>: the matching documents, latest
  \<open>createdAt\<close> first. The store does not fix the order of documents with the same
  \<open>createdAt\<close>; the model lists them latest inserted first, and no property below
  depends on that choice.
\<close>

definition passwords_find_sorted ::
  "(password_doc \<Rightarrow> bool) \<Rightarrow> db \<Rightarrow> password_doc list \<times> db" where
  "passwords_find_sorted q d =
     (rev (sort_key p_createdAt (filter q (passwords d))),
      d\<lparr>calls := calls d @ [PasswordsFind]\<rparr>)"

definition passwords_insertOne :: "password_doc \<Rightarrow> db \<Rightarrow> (objectid option) \<times> db" where
  "passwords_insertOne doc d =
     (if p_id doc \<in> set (map p_id (passwords d))
      then (None, d\<lparr>calls := calls d @ [PasswordsInsertOne]\<rparr>)
      else (Some (p_id doc),
            d\<lparr>passwords := passwords d @ [doc], calls := calls d @ [PasswordsInsertOne]\<rparr>))"

text \<open>\<open>updateOne\<close> and \<open>deleteOne\<close> act on the first document that matches.\<close>

fun update_first ::
  "('a \<Rightarrow> bool) \<Rightarrow> ('a \<Rightarrow> 'a) \<Rightarrow> 'a list \<Rightarrow> 'a list" where
  "update_first q f [] = []"
| "update_first q f (x # xs) = (if q x then f x # xs else x # update_first q f xs)"

fun delete_first :: "('a \<Rightarrow> bool) \<Rightarrow> 'a list \<Rightarrow> 'a list" where
  "delete_first q [] = []"
| "delete_first q (x # xs) = (if q x then xs else x # delete_first q xs)"

definition passwords_updateOne ::
  "(password_doc \<Rightarrow> bool) \<Rightarrow> (password_doc \<Rightarrow> password_doc) \<Rightarrow> db \<Rightarrow> db" where
  "passwords_updateOne q f d =
     d\<lparr>passwords := update_first q f (passwords d),
       calls := calls d @ [PasswordsUpdateOne]\<rparr>"

definition passwords_deleteOne :: "(password_doc \<Rightarrow> bool) \<Rightarrow> db \<Rightarrow> db" where
  "passwords_deleteOne q d =
     d\<lparr>passwords := delete_first q (passwords d),
       calls := calls d @ [PasswordsDeleteOne]\<rparr>"

subsection \<open>Token verification\<close>

text \<open>\<open>authHeader && authHeader.split(" ")[1]\<close>\<close>

definition bearer_token :: "string option \<Rightarrow> string option" where
  "bearer_token authHeader =
     (case authHeader of
        None \<Rightarrow> None
      | Some h \<Rightarrow>
          if h = [] then Some []
          else (case split (CHR '' '') h of
                  _ # token # _ \<Rightarrow> Some token
                | _ \<Rightarrow> None))"

definition verifyToken :: "lib \<Rightarrow> string option \<Rightarrow> response + jwt_payload" where
  "verifyToken l authHeader =
     (case bearer_token authHeader of
        None \<Rightarrow> Inl (Response 401 (Msg False ''Access denied. No token provided.''))
      | Some token \<Rightarrow>
          if token = [] then Inl (Response 401 (Msg False ''Access denied. No token provided.''))
          else (case jwt_verify l token of
                  Inr decoded \<Rightarrow> Inr decoded
                | Inl err \<Rightarrow>
                    if err = TokenExpiredError
                    then Inl (Response 401 (Msg False ''Token expired. Please login again.''))
                    else Inl (Response 401 (Msg False ''Invalid token.''))))"

subsection \<open>Register and login\<close>

text \<open>
  Everything between the field checks and the response is inside the handler's \<open>try\<close>;
  whatever is thrown there is answered 500 "Internal server error". \<open>bcrypt.hash\<close> and
  \<open>bcrypt.compare\<close> reject an argument that is not a string with an "Illegal arguments"
  error.
\<close>

definition register ::
  "lib \<Rightarrow> timestamp \<Rightarrow> objectid \<Rightarrow> jsval \<Rightarrow> jsval \<Rightarrow> jsval \<Rightarrow> db \<Rightarrow> response \<times> db" where
  "register l date newId username email password d =
     (if js_not username \<or> js_not email \<or> js_not password
      then (Response 400 (Msg False ''All fields are required''), d)
      else
       (case validateEmail l email of
          Inl err \<Rightarrow> (Response 500 (Msg False ''Internal server error''), d)
        | Inr email_ok \<Rightarrow>
       if \<not> email_ok
       then (Response 400 (Msg False ''Please provide a valid email address''), d)
       else
       (case validateUsername username of
          Inl err \<Rightarrow> (Response 500 (Msg False ''Internal server error''), d)
        | Inr username_ok \<Rightarrow>
       if \<not> username_ok
       then (Response 400 (Msg False ''Username must be at least 2 characters long''), d)
       else
       (case validatePassword l password of
          Inl err \<Rightarrow> (Response 500 (Msg False ''Internal server error''), d)
        | Inr password_ok \<Rightarrow>
       if \<not> password_ok
       then (Response 400 (Msg False ''Password must be at least 6 characters long''), d)
       else
       (case js_toLowerCase email of
          Inl err \<Rightarrow> (Response 500 (Msg False ''Internal server error''), d)
        | Inr e \<Rightarrow>
       (case js_toLowerCase username of
          Inl err \<Rightarrow> (Response 500 (Msg False ''Internal server error''), d)
        | Inr u \<Rightarrow>
          let (existingUser, d1) =
                users_findOne (\<lambda>x. u_email x = e \<or> u_username x = u) d
          in (case existingUser of
                Some x \<Rightarrow>
                  (Response 400
                     (Msg False
                        ((if u_email x = e then ''Email'' else ''Username'')
                         @ '' already exists'')),
                   d1)
              | None \<Rightarrow>
                  (case password of
                     JStr p \<Rightarrow>
                       (case js_trim username of
                          Inl err \<Rightarrow>
                            (Response 500 (Msg False ''Internal server error''), d1)
                        | Inr name \<Rightarrow>
                            let hashedPassword = bcrypt_hash l p;
                                (result, d2) =
                                  users_insertOne
                                    \<lparr>u_id = newId, u_username = name, u_email = e,
                                     u_password = hashedPassword, u_createdAt = date\<rparr> d1
                            in (case result of
                                  Some insertedId \<Rightarrow>
                                    (Response 201
                                       (Registered ''User registered successfully''
                                          insertedId), d2)
                                | None \<Rightarrow>
                                    (Response 500 (Msg False ''Internal server error''),
                                     d2)))
                   | _ \<Rightarrow> (Response 500 (Msg False ''Internal server error''), d1)))))))))"

definition login :: "lib \<Rightarrow> jsval \<Rightarrow> jsval \<Rightarrow> db \<Rightarrow> response \<times> db" where
  "login l email password d =
     (if js_not email \<or> js_not password
      then (Response 400 (Msg False ''Email and password are required''), d)
      else
       (case validateEmail l email of
          Inl err \<Rightarrow> (Response 500 (Msg False ''Internal server error''), d)
        | Inr email_ok \<Rightarrow>
       if \<not> email_ok
       then (Response 400 (Msg False ''Please provide a valid email address''), d)
       else
       (case js_toLowerCase email of
          Inl err \<Rightarrow> (Response 500 (Msg False ''Internal server error''), d)
        | Inr e \<Rightarrow>
          let (user, d1) = users_findOne (\<lambda>x. u_email x = e) d
          in (case user of
                None \<Rightarrow> (Response 401 (Msg False ''Invalid email or password''), d1)
              | Some x \<Rightarrow>
                  (case password of
                     JStr p \<Rightarrow>
                       if \<not> bcrypt_compare l p (u_password x)
                       then (Response 401 (Msg False ''Invalid email or password''), d1)
                       else
                         let token =
                               jwt_sign l
                                 \<lparr>jwt_id = toHexString l (u_id x),
                                  jwt_username = u_username x\<rparr>
                         in (Response 200
                               (LoggedIn token (toHexString l (u_id x)) (u_username x)
                                  (u_email x) ''Login successful''),
                             d1)
                   | _ \<Rightarrow> (Response 500 (Msg False ''Internal server error''), d1))))))"

subsection \<open>The protected password routes\<close>

definition getPasswords :: "jwt_payload \<Rightarrow> db \<Rightarrow> response \<times> db" where
  "getPasswords user d =
     (let (findResult, d1) = passwords_find_sorted (\<lambda>doc. p_userId doc = jwt_id user) d
      in (Response 200 (Docs findResult), d1))"

definition createPassword ::
  "lib \<Rightarrow> timestamp \<Rightarrow> timestamp \<Rightarrow> objectid \<Rightarrow> jwt_payload \<Rightarrow> jsval \<Rightarrow> jsval \<Rightarrow> jsval \<Rightarrow> db
     \<Rightarrow> response \<times> db" where
  "createPassword l date1 date2 newId user site username password d =
     (if js_not site \<or> js_not username \<or> js_not password
      then (Response 400 (Msg False ''Site, username, and password are required''), d)
      else
       (case js_trim site of
          Inl err \<Rightarrow> (Response 500 (Msg False ''Failed to save password''), d)
        | Inr s \<Rightarrow>
       if length s < 3
       then (Response 400 (Msg False ''Site must be at least 3 characters long''), d)
       else
       (case js_trim username of
          Inl err \<Rightarrow> (Response 500 (Msg False ''Failed to save password''), d)
        | Inr u \<Rightarrow>
       if length u < 1
       then (Response 400 (Msg False ''Username cannot be empty''), d)
       else
       (case js_lt l (js_length password) 1 of
          Inl err \<Rightarrow> (Response 500 (Msg False ''Failed to save password''), d)
        | Inr password_empty \<Rightarrow>
       if password_empty
       then (Response 400 (Msg False ''Password cannot be empty''), d)
       else
         let passwordData =
               \<lparr>p_id = newId, p_site = s, p_username = u, p_password = password,
                p_userId = jwt_id user, p_createdAt = date1, p_updatedAt = date2\<rparr>;
             (result, d1) = passwords_insertOne passwordData d
         in (case result of
               Some insertedId \<Rightarrow>
                 (Response 201 (Inserted insertedId ''Password saved successfully''), d1)
             | None \<Rightarrow> (Response 500 (Msg False ''Failed to save password''), d1))))))"

text \<open>
  The PUT handler reads \<open>site.trim()\<close> for its length check before the lookup and
  \<open>username.trim()\<close> only when it builds the update, after the record was found.
\<close>

definition updatePassword ::
  "lib \<Rightarrow> timestamp \<Rightarrow> jwt_payload \<Rightarrow> string \<Rightarrow> jsval \<Rightarrow> jsval \<Rightarrow> jsval \<Rightarrow> db
     \<Rightarrow> response \<times> db" where
  "updatePassword l date user id_param site username password d =
     (case ObjectId_new l id_param of
        None \<Rightarrow> (Response 400 (Msg False ''Invalid password ID format''), d)
      | Some oid \<Rightarrow>
          if js_not site \<or> js_not username \<or> js_not password
          then (Response 400 (Msg False ''Site, username, and password are required''), d)
          else
           (case js_trim site of
              Inl err \<Rightarrow> (Response 500 (Msg False ''Failed to update password''), d)
            | Inr s \<Rightarrow>
           if length s < 3
           then (Response 400 (Msg False ''Site must be at least 3 characters long''), d)
           else
             let (exists, d1) =
                   passwords_findOne
                     (\<lambda>doc. p_id doc = oid \<and> p_userId doc = jwt_id user) d
             in (case exists of
                   None \<Rightarrow>
                     (Response 404 (Msg False ''Password not found or access denied''), d1)
                 | Some _ \<Rightarrow>
                     (case js_trim username of
                        Inl err \<Rightarrow>
                          (Response 500 (Msg False ''Failed to update password''), d1)
                      | Inr u \<Rightarrow>
                          (Response 200 (Msg True ''Password updated successfully''),
                           passwords_updateOne (\<lambda>doc. p_id doc = oid)
                             (\<lambda>doc. doc\<lparr>p_site := s, p_username := u,
                                         p_password := password, p_updatedAt := date\<rparr>)
                             d1)))))"

definition deletePassword :: "lib \<Rightarrow> jwt_payload \<Rightarrow> string \<Rightarrow> db \<Rightarrow> response \<times> db" where
  "deletePassword l user id_param d =
     (case ObjectId_new l id_param of
        None \<Rightarrow> (Response 400 (Msg False ''Invalid password ID format''), d)
      | Some oid \<Rightarrow>
          let (exists, d1) =
                passwords_findOne (\<lambda>doc. p_id doc = oid \<and> p_userId doc = jwt_id user) d
          in (case exists of
                None \<Rightarrow> (Response 404 (Msg False ''Password not found or access denied''), d1)
              | Some _ \<Rightarrow>
                  (Response 200 (Msg True ''Password deleted successfully''),
                   passwords_deleteOne (\<lambda>doc. p_id doc = oid) d1)))"

text \<open>
  The four routes registered as \<open>app.METHOD(path, verifyToken, handler)\<close>: the handler
  runs only when \<open>verifyToken\<close> calls \<open>next()\<close>. \<open>env\<close> holds what the environment supplies
  while the request is served.
\<close>

datatype vault_request =
  GET_passwords
| POST_passwords jsval jsval jsval
| PUT_passwords string jsval jsval jsval
| DELETE_passwords string

record env =
  date1 :: timestamp
  date2 :: timestamp
  insert_id :: objectid

definition vault_route ::
  "lib \<Rightarrow> env \<Rightarrow> string option \<Rightarrow> vault_request \<Rightarrow> db \<Rightarrow> response \<times> db" where
  "vault_route l e authHeader req d =
     (case verifyToken l authHeader of
        Inl res \<Rightarrow> (res, d)
      | Inr user \<Rightarrow>
          (case req of
             GET_passwords \<Rightarrow> getPasswords user d
           | POST_passwords site username password \<Rightarrow>
               createPassword l (date1 e) (date2 e) (insert_id e) user site username
                 password d
           | PUT_passwords id_param site username password \<Rightarrow>
               updatePassword l (date1 e) user id_param site username password d
           | DELETE_passwords id_param \<Rightarrow> deletePassword l user id_param d))"

subsection \<open>Sequences of requests\<close>

text \<open>
  A run serves a list of requests to the protected routes, one after the other. Beside
  the database it carries a note of who created which record: whenever an
  authenticated request is answered with an \<open>insertedId\<close>, that id is noted with the
  identity decoded from the request's token. The note is not part of the server; it
  is what the ownership invariant is stated against.
\<close>

type_synonym creators = "objectid \<Rightarrow> string option"
type_synonym vault_event = "env \<times> string option \<times> vault_request"

definition vault_step :: "lib \<Rightarrow> vault_event \<Rightarrow> creators \<times> db \<Rightarrow> creators \<times> db" where
  "vault_step l ev st =
     (case ev of (e, authHeader, req) \<Rightarrow>
        (case st of (created_by, d) \<Rightarrow>
           (case vault_route l e authHeader req d of (res, d') \<Rightarrow>
              (case (verifyToken l authHeader, body res) of
                 (Inr user, Inserted insertedId _) \<Rightarrow>
                   (created_by(insertedId \<mapsto> jwt_id user), d')
               | _ \<Rightarrow> (created_by, d')))))"

fun run :: "lib \<Rightarrow> vault_event list \<Rightarrow> creators \<times> db \<Rightarrow> creators \<times> db" where
  "run l [] st = st"
| "run l (ev # evs) st = run l evs (vault_step l ev st)"

definition owned_by_creator :: "creators \<times> db \<Rightarrow> bool" where
  "owned_by_creator st =
     list_all (\<lambda>doc. fst st (p_id doc) = Some (p_userId doc)) (passwords (snd st))"

subsection \<open>A concrete instance of the libraries and of the store\<close>

text \<open>
  The theorems below hold for every \<open>lib\<close>. To run the handlers on concrete requests
  the following instance is used: an ObjectId is written as 24 hexadecimal digits,
  tokens are looked up in a fixed table, and a hash is the reversed password behind a
  fixed prefix. The two conversions answer as they do for an object without properties
  of its own: \<open>[object Object]\<close> and \<open>NaN\<close>.
\<close>

definition hex_val :: "char \<Rightarrow> nat option" where
  "hex_val c =
     (let n = (of_char c :: nat)
      in if 48 \<le> n \<and> n \<le> 57 then Some (n - 48)
         else if 97 \<le> n \<and> n \<le> 102 then Some (n - 87)
         else if 65 \<le> n \<and> n \<le> 70 then Some (n - 55)
         else None)"

fun hex_parse :: "nat \<Rightarrow> string \<Rightarrow> nat option" where
  "hex_parse acc [] = Some acc"
| "hex_parse acc (c # cs) =
     (case hex_val c of None \<Rightarrow> None | Some v \<Rightarrow> hex_parse (16 * acc + v) cs)"

definition example_ObjectId_new :: "string \<Rightarrow> objectid option" where
  "example_ObjectId_new s =
     (if length s = 24 then map_option word_of_nat (hex_parse 0 s) else None)"

fun hex_of :: "nat \<Rightarrow> nat \<Rightarrow> string" where
  "hex_of 0 n = []"
| "hex_of (Suc k) n = hex_of k (n div 16) @ [''0123456789abcdef'' ! (n mod 16)]"

definition example_toHexString :: "objectid \<Rightarrow> string" where
  "example_toHexString w = hex_of 24 (unat w)"

definition alice :: jwt_payload where
  "alice = \<lparr>jwt_id = ''000000000000000000000001'', jwt_username = ''alice''\<rparr>"

definition bob :: jwt_payload where
  "bob = \<lparr>jwt_id = ''000000000000000000000002'', jwt_username = ''bob''\<rparr>"

definition example_jwt_verify :: "string \<Rightarrow> jwt_error + jwt_payload" where
  "example_jwt_verify token =
     (if token = ''token-alice'' then Inr alice
      else if token = ''token-bob'' then Inr bob
      else if token = ''token-old'' then Inl TokenExpiredError
      else Inl JsonWebTokenError)"

definition example_jwt_sign :: "jwt_payload \<Rightarrow> string" where
  "example_jwt_sign payload = ''token-'' @ jwt_username payload"

definition example_bcrypt_hash :: "string \<Rightarrow> string" where
  "example_bcrypt_hash p = ''$2a$12$'' @ rev p"

definition example_bcrypt_compare :: "string \<Rightarrow> string \<Rightarrow> bool" where
  "example_bcrypt_compare p h = (h = example_bcrypt_hash p)"

definition example_ToString :: "jsval \<Rightarrow> js_error + string" where
  "example_ToString v = Inr ''[object Object]''"

definition example_ToNumber :: "jsval \<Rightarrow> js_error + rat option" where
  "example_ToNumber v = Inr None"

definition example_lib :: lib where
  "example_lib =
     \<lparr>ObjectId_new = example_ObjectId_new, toHexString = example_toHexString,
      jwt_verify = example_jwt_verify, jwt_sign = example_jwt_sign,
      bcrypt_hash = example_bcrypt_hash, bcrypt_compare = example_bcrypt_compare,
      ToString = example_ToString, ToNumber = example_ToNumber\<rparr>"

definition example_env :: env where
  "example_env = \<lparr>date1 = 5000, date2 = 5001, insert_id = 0xb2\<rparr>"

text \<open>A store in which alice owns one record, created at time 1000.\<close>

definition alice_record :: password_doc where
  "alice_record =
     \<lparr>p_id = 0xa1, p_site = ''example.com'', p_username = ''alice'', p_password = JStr ''s3cret'',
      p_userId = ''000000000000000000000001'', p_createdAt = 1000, p_updatedAt = 1000\<rparr>"

definition alice_db :: db where
  "alice_db = \<lparr>users = [], passwords = [alice_record], calls = []\<rparr>"

text \<open>A store shared by alice and bob.\<close>

definition bob_record :: password_doc where
  "bob_record =
     \<lparr>p_id = 0xb1, p_site = ''bank.example'', p_username = ''bob'', p_password = JStr ''hunter2'',
      p_userId = ''000000000000000000000002'', p_createdAt = 2000, p_updatedAt = 2500\<rparr>"

definition alice_record2 :: password_doc where
  "alice_record2 =
     \<lparr>p_id = 0xa2, p_site = ''mail.example'', p_username = ''alice@mail'', p_password = JStr ''pa ss'',
      p_userId = ''000000000000000000000001'', p_createdAt = 3000, p_updatedAt = 3000\<rparr>"

definition shared_db :: db where
  "shared_db = \<lparr>users = [], passwords = [alice_record, bob_record, alice_record2], calls = []\<rparr>"

text \<open>Stores with registered users.\<close>

definition alice_user :: user_doc where
  "alice_user =
     \<lparr>u_id = 1, u_username = ''Alice'', u_email = ''alice@x.com'',
      u_password = ''$2a$12$1terces'', u_createdAt = 900\<rparr>"

definition users_db :: db where
  "users_db = \<lparr>users = [alice_user], passwords = [], calls = []\<rparr>"

definition bob_user :: user_doc where
  "bob_user =
     \<lparr>u_id = 2, u_username = ''bob'', u_email = ''bob@x.com'',
      u_password = ''$2a$12$2terces'', u_createdAt = 910\<rparr>"

definition carol_user :: user_doc where
  "carol_user =
     \<lparr>u_id = 3, u_username = ''carol'', u_email = ''carol@x.com'',
      u_password = ''$2a$12$3terces'', u_createdAt = 920\<rparr>"

definition two_users_db :: db where
  "two_users_db = \<lparr>users = [bob_user, carol_user], passwords = [], calls = []\<rparr>"

text \<open>Alice saves a record; bob then tries to overwrite and to delete it.\<close>

definition example_events :: "vault_event list" where
  "example_events =
     [(example_env, Some ''Bearer token-alice'',
       POST_passwords (JStr ''shop.example'') (JStr ''alice'') (JStr ''pw1'')),
      (example_env, Some ''Bearer token-bob'',
       PUT_passwords ''0000000000000000000000b2'' (JStr ''evil.example'') (JStr ''bob'')
         (JStr ''x'')),
      (example_env, Some ''Bearer token-bob'', DELETE_passwords ''0000000000000000000000b2'')]"


section \<open>Properties\<close>

subsection \<open>The email pattern\<close>

text \<open>
  \<open>emailRegex\<close> accepts exactly the strings of the shape the regular expression
  describes: a non-empty run of characters other than white space and \<open>@\<close>, an \<open>@\<close>,
  a second such run, a dot, and a third such run.
\<close>

lemma atom_char_dot: "atom_char CHR ''.''"
  by (simp add: atom_char_def is_space_def)

lemma atom_char_at: "\<not> atom_char CHR ''@''"
  by (simp add: atom_char_def)

lemma emailRegex_matches:
  assumes "a \<noteq> []" "b \<noteq> []" "c \<noteq> []"
    and "list_all atom_char a" "list_all atom_char b" "list_all atom_char c"
  shows "emailRegex (a @ CHR ''@'' # b @ CHR ''.'' # c)"
proof -
  let ?e = "a @ CHR ''@'' # b @ CHR ''.'' # c"
  from assms(4) have a: "\<And>x. x \<in> set a \<Longrightarrow> atom_char x"
    by (simp add: list_all_iff)
  have "takeWhile atom_char ?e = a @ takeWhile atom_char (CHR ''@'' # b @ CHR ''.'' # c)"
    using a by (rule takeWhile_append2)
  then have tw: "takeWhile atom_char ?e = a"
    by (simp add: atom_char_at)
  have "dropWhile atom_char ?e = dropWhile atom_char (CHR ''@'' # b @ CHR ''.'' # c)"
    using a by (rule dropWhile_append2)
  then have dw: "dropWhile atom_char ?e = CHR ''@'' # b @ CHR ''.'' # c"
    by (simp add: atom_char_at)
  from assms(2) obtain x t where b: "b = x # t"
    by (cases b) auto
  have "butlast (tl (b @ CHR ''.'' # c)) = t @ CHR ''.'' # butlast c"
    using assms(3) by (simp add: b butlast_append)
  then have dot: "CHR ''.'' \<in> set (butlast (tl (b @ CHR ''.'' # c)))"
    by simp
  have "list_all atom_char (b @ CHR ''.'' # c)"
    using assms(5,6) by (simp add: atom_char_dot)
  with tw dw dot assms(1) show ?thesis
    by (simp add: emailRegex_def)
qed

lemma emailRegex_shape:
  assumes "emailRegex e"
  shows "\<exists>a b c. e = a @ CHR ''@'' # b @ CHR ''.'' # c \<and> a \<noteq> [] \<and> b \<noteq> [] \<and> c \<noteq> []
           \<and> list_all atom_char a \<and> list_all atom_char b \<and> list_all atom_char c"
proof -
  from assms obtain domain where dw: "dropWhile atom_char e = CHR ''@'' # domain"
    and a: "takeWhile atom_char e \<noteq> []"
    and dom: "list_all atom_char domain"
    and dot: "CHR ''.'' \<in> set (butlast (tl domain))"
    by (auto simp: emailRegex_def split: list.splits)
  let ?a = "takeWhile atom_char e"
  have e: "e = ?a @ CHR ''@'' # domain"
    using dw takeWhile_dropWhile_id [of atom_char e] by simp
  have alla: "list_all atom_char ?a"
    by (auto simp: list_all_iff dest: set_takeWhileD)
  from dot obtain x t where d: "domain = x # t"
    by (cases domain) auto
  from dot d have t: "t \<noteq> []"
    by auto
  from dot d have "CHR ''.'' \<in> set (butlast t)"
    by simp
  then obtain p q where pq: "butlast t = p @ CHR ''.'' # q"
    by (auto dest: split_list)
  from t have "t = butlast t @ [last t]"
    by simp
  with pq have t': "t = p @ CHR ''.'' # (q @ [last t])"
    by simp
  let ?b = "x # p" and ?c = "q @ [last t]"
  have "domain = ?b @ CHR ''.'' # ?c"
    using d t' by simp
  with e have e': "e = ?a @ CHR ''@'' # ?b @ CHR ''.'' # ?c"
    by simp
  from dom \<open>domain = ?b @ CHR ''.'' # ?c\<close>
  have "list_all atom_char (?b @ CHR ''.'' # ?c)"
    by simp
  then have "list_all atom_char ?b" "list_all atom_char ?c"
    by simp_all
  with e' a alla show ?thesis
    by blast
qed

subsection \<open>Token verification\<close>

lemma verifyToken_no_token:
  "falsy (bearer_token authHeader) \<Longrightarrow>
     verifyToken l authHeader =
       Inl (Response 401 (Msg False ''Access denied. No token provided.''))"
  by (cases "bearer_token authHeader") (simp_all add: verifyToken_def)

lemma verifyToken_error:
  "bearer_token authHeader = Some token \<Longrightarrow> token \<noteq> [] \<Longrightarrow>
   jwt_verify l token = Inl err \<Longrightarrow>
     verifyToken l authHeader =
       Inl (Response 401 (Msg False (if err = TokenExpiredError
              then ''Token expired. Please login again.'' else ''Invalid token.'')))"
  by (simp add: verifyToken_def)

text \<open>
  Claim C4. On each of the four protected routes, a request without a bearer token is
  answered 401 "Access denied. No token provided.", one whose token has expired 401
  "Token expired. Please login again.", and one whose token fails verification in any
  other way 401 "Invalid token.". In all three cases the database is returned as it
  was, its record of store calls included: the handler is not entered and no
  collection is touched.
\<close>

theorem vault_route_unauthenticated:
  "(falsy (bearer_token authHeader) \<longrightarrow>
      vault_route l e authHeader req d =
        (Response 401 (Msg False ''Access denied. No token provided.''), d))
   \<and> (bearer_token authHeader = Some token \<and> token \<noteq> [] \<and>
        jwt_verify l token = Inl TokenExpiredError \<longrightarrow>
      vault_route l e authHeader req d =
        (Response 401 (Msg False ''Token expired. Please login again.''), d))
   \<and> (bearer_token authHeader = Some token \<and> token \<noteq> [] \<and>
        jwt_verify l token = Inl err \<and> err \<noteq> TokenExpiredError \<longrightarrow>
      vault_route l e authHeader req d = (Response 401 (Msg False ''Invalid token.''), d))"
  by (simp add: vault_route_def verifyToken_no_token verifyToken_error)

theorem vault_route_unauthenticated_witness:
  "vault_route example_lib example_env None GET_passwords alice_db =
     (Response 401 (Msg False ''Access denied. No token provided.''), alice_db)
   \<and> vault_route example_lib example_env (Some ''Bearer token-old'')
        (DELETE_passwords ''0000000000000000000000a1'') alice_db =
     (Response 401 (Msg False ''Token expired. Please login again.''), alice_db)
   \<and> vault_route example_lib example_env (Some ''Bearer nonsense'')
        (DELETE_passwords ''0000000000000000000000a1'') alice_db =
     (Response 401 (Msg False ''Invalid token.''), alice_db)"
  using
    vault_route_unauthenticated [of None example_lib example_env GET_passwords alice_db]
    vault_route_unauthenticated [of "Some ''Bearer token-old''" example_lib example_env
      "DELETE_passwords ''0000000000000000000000a1''" alice_db "''token-old''"]
    vault_route_unauthenticated [of "Some ''Bearer nonsense''" example_lib example_env
      "DELETE_passwords ''0000000000000000000000a1''" alice_db "''nonsense''"
      JsonWebTokenError]
  by (simp add: bearer_token_def example_lib_def example_jwt_verify_def)

subsection \<open>Running the example instance\<close>

lemma verifyToken_alice:
  "verifyToken example_lib (Some ''Bearer token-alice'') = Inr alice"
  by (simp add: verifyToken_def bearer_token_def example_lib_def example_jwt_verify_def)

lemma verifyToken_bob:
  "verifyToken example_lib (Some ''Bearer token-bob'') = Inr bob"
  by (simp add: verifyToken_def bearer_token_def example_lib_def example_jwt_verify_def)

lemma ObjectId_new_a1:
  "ObjectId_new example_lib ''0000000000000000000000a1'' = Some 0xa1"
  by (simp add: example_lib_def example_ObjectId_new_def hex_val_def)

subsection \<open>What each protected handler does to the store\<close>

lemma vault_route_authenticated:
  "verifyToken l authHeader = Inr user \<Longrightarrow>
     vault_route l e authHeader req d =
       (case req of
          GET_passwords \<Rightarrow> getPasswords user d
        | POST_passwords site username password \<Rightarrow>
            createPassword l (date1 e) (date2 e) (insert_id e) user site username password d
        | PUT_passwords id_param site username password \<Rightarrow>
            updatePassword l (date1 e) user id_param site username password d
        | DELETE_passwords id_param \<Rightarrow> deletePassword l user id_param d)"
  by (simp add: vault_route_def)

lemma js_trim_Inr: "js_trim v = Inr t \<longleftrightarrow> (\<exists>s. v = JStr s \<and> t = trim s)"
  by (cases v) auto

lemma js_trim_Inl: "js_trim v = Inl err \<longleftrightarrow> (\<forall>s. v \<noteq> JStr s) \<and> err = TypeError"
  by (cases v) auto

lemma js_toLowerCase_Inr:
  "js_toLowerCase v = Inr t \<longleftrightarrow> (\<exists>s. v = JStr s \<and> t = toLowerCase s)"
  by (cases v) auto

lemma update_first_distinct:
  "distinct (map k xs) \<Longrightarrow>
     update_first (\<lambda>x. k x = a) f xs = map (\<lambda>x. if k x = a then f x else x) xs"
proof (induction xs)
  case Nil
  then show ?case by simp
next
  case (Cons x xs)
  show ?case
  proof (cases "k x = a")
    case True
    from Cons.prems have "k x \<notin> k ` set xs" by simp
    with True have "\<forall>y\<in>set xs. k y \<noteq> a" by (metis imageI)
    then have "map (\<lambda>x. if k x = a then f x else x) xs = xs"
      by (induction xs) auto
    with True show ?thesis by simp
  next
    case False
    with Cons show ?thesis by simp
  qed
qed

lemma delete_first_distinct:
  "distinct (map k xs) \<Longrightarrow> delete_first (\<lambda>x. k x = a) xs = filter (\<lambda>x. k x \<noteq> a) xs"
proof (induction xs)
  case Nil
  then show ?case by simp
next
  case (Cons x xs)
  show ?case
  proof (cases "k x = a")
    case True
    from Cons.prems have "k x \<notin> k ` set xs" by simp
    with True have "\<forall>y\<in>set xs. k y \<noteq> a" by (metis imageI)
    then have "filter (\<lambda>x. k x \<noteq> a) xs = xs"
      by (induction xs) auto
    with True show ?thesis by simp
  next
    case False
    with Cons show ?thesis by simp
  qed
qed

lemma find_owned_None:
  assumes "distinct (map p_id ds)"
    and "oid \<notin> p_id ` set ds \<or> (\<exists>doc\<in>set ds. p_id doc = oid \<and> p_userId doc \<noteq> uid)"
  shows "find (\<lambda>doc. p_id doc = oid \<and> p_userId doc = uid) ds = None"
proof -
  have "\<not> (\<exists>doc\<in>set ds. p_id doc = oid \<and> p_userId doc = uid)"
  proof
    assume "\<exists>doc\<in>set ds. p_id doc = oid \<and> p_userId doc = uid"
    then obtain own where own: "own \<in> set ds" "p_id own = oid" "p_userId own = uid"
      by blast
    from assms(2) own(1,2) obtain other
      where other: "other \<in> set ds" "p_id other = oid" "p_userId other \<noteq> uid"
      by blast
    from assms(1) have "inj_on p_id (set ds)"
      by (simp add: distinct_map)
    with own other have "own = other"
      by (auto dest: inj_onD)
    with own other show False by simp
  qed
  then show ?thesis
    by (simp add: find_None_iff)
qed

lemma deletePassword_not_found:
  "ObjectId_new l id_param = Some oid \<Longrightarrow>
   find (\<lambda>doc. p_id doc = oid \<and> p_userId doc = jwt_id user) (passwords d) = None \<Longrightarrow>
     deletePassword l user id_param d =
       (Response 404 (Msg False ''Password not found or access denied''),
        d\<lparr>calls := calls d @ [PasswordsFindOne]\<rparr>)"
  by (simp add: deletePassword_def passwords_findOne_def)

lemma updatePassword_required:
  "ObjectId_new l id_param = Some oid \<Longrightarrow>
   js_not site \<or> js_not username \<or> js_not password \<Longrightarrow>
     updatePassword l date user id_param site username password d =
       (Response 400 (Msg False ''Site, username, and password are required''), d)"
  by (simp add: updatePassword_def)

lemma updatePassword_short_site:
  "ObjectId_new l id_param = Some oid \<Longrightarrow>
   s \<noteq> [] \<Longrightarrow> \<not> js_not username \<Longrightarrow> \<not> js_not password \<Longrightarrow> length (trim s) < 3 \<Longrightarrow>
     updatePassword l date user id_param (JStr s) username password d =
       (Response 400 (Msg False ''Site must be at least 3 characters long''), d)"
  by (simp add: updatePassword_def)

lemma updatePassword_not_found:
  "ObjectId_new l id_param = Some oid \<Longrightarrow>
   find (\<lambda>doc. p_id doc = oid \<and> p_userId doc = jwt_id user) (passwords d) = None \<Longrightarrow>
   s \<noteq> [] \<Longrightarrow> \<not> js_not username \<Longrightarrow> \<not> js_not password \<Longrightarrow> 3 \<le> length (trim s) \<Longrightarrow>
     updatePassword l date user id_param (JStr s) username password d =
       (Response 404 (Msg False ''Password not found or access denied''),
        d\<lparr>calls := calls d @ [PasswordsFindOne]\<rparr>)"
  by (simp add: updatePassword_def passwords_findOne_def)

text \<open>
  A site that is present but not a string makes \<open>site.trim()\<close> throw before any store
  call; the handler's \<open>catch\<close> answers 500.
\<close>

lemma updatePassword_site_not_a_string:
  "ObjectId_new l id_param = Some oid \<Longrightarrow>
   \<not> js_not site \<Longrightarrow> \<not> js_not username \<Longrightarrow> \<not> js_not password \<Longrightarrow>
   \<forall>s. site \<noteq> JStr s \<Longrightarrow>
     updatePassword l date user id_param site username password d =
       (Response 500 (Msg False ''Failed to update password''), d)"
  by (cases site) (simp_all add: updatePassword_def)

lemma updatePassword_not_found_any_body:
  assumes "ObjectId_new l id_param = Some oid"
    and "find (\<lambda>doc. p_id doc = oid \<and> p_userId doc = jwt_id user) (passwords d) = None"
  shows "status (fst (updatePassword l date user id_param site username password d)) \<noteq> 200
       \<and> status (fst (updatePassword l date user id_param site username password d)) \<noteq> 403
       \<and> passwords (snd (updatePassword l date user id_param site username password d))
             = passwords d"
  using assms
  by (simp add: updatePassword_def passwords_findOne_def split: sum.splits)

lemma vault_route_GET:
  "verifyToken l authHeader = Inr user \<Longrightarrow>
     vault_route l e authHeader GET_passwords d =
       (Response 200
          (Docs (rev (sort_key p_createdAt
                   (filter (\<lambda>doc. p_userId doc = jwt_id user) (passwords d))))),
        d\<lparr>calls := calls d @ [PasswordsFind]\<rparr>)"
  by (simp add: vault_route_authenticated getPasswords_def passwords_find_sorted_def)

lemma createPassword_201:
  assumes "createPassword l t1 t2 newId user site username password d = (res, d')"
    and "status res = 201"
  shows "\<exists>s u. site = JStr s \<and> username = JStr u
           \<and> newId \<notin> p_id ` set (passwords d)
           \<and> res = Response 201 (Inserted newId ''Password saved successfully'')
           \<and> d' = d\<lparr>passwords := passwords d @
                       [\<lparr>p_id = newId, p_site = trim s, p_username = trim u,
                         p_password = password,
                         p_userId = jwt_id user, p_createdAt = t1, p_updatedAt = t2\<rparr>],
                     calls := calls d @ [PasswordsInsertOne]\<rparr>"
  using assms
  by (auto simp: createPassword_def passwords_insertOne_def Let_def js_trim_Inr
           split: if_splits sum.splits)

lemma createPassword_not_201:
  assumes "status (fst (createPassword l t1 t2 newId user site username password d)) \<noteq> 201"
  shows "passwords (snd (createPassword l t1 t2 newId user site username password d))
           = passwords d"
  using assms
  by (auto simp: createPassword_def passwords_insertOne_def Let_def
           split: if_splits sum.splits)

lemma updatePassword_200:
  assumes "updatePassword l date user id_param site username password d = (res, d')"
    and "status res = 200"
  shows "\<exists>oid s u doc. ObjectId_new l id_param = Some oid
           \<and> site = JStr s \<and> username = JStr u
           \<and> find (\<lambda>doc. p_id doc = oid \<and> p_userId doc = jwt_id user) (passwords d) = Some doc
           \<and> res = Response 200 (Msg True ''Password updated successfully'')
           \<and> d' = d\<lparr>passwords :=
                       update_first (\<lambda>doc. p_id doc = oid)
                         (\<lambda>doc. doc\<lparr>p_site := trim s, p_username := trim u,
                                     p_password := password, p_updatedAt := date\<rparr>)
                         (passwords d),
                     calls := calls d @ [PasswordsFindOne, PasswordsUpdateOne]\<rparr>"
  using assms
  by (auto simp: updatePassword_def passwords_findOne_def passwords_updateOne_def
           js_trim_Inr split: if_splits option.splits sum.splits)

lemma updatePassword_not_200:
  assumes "status (fst (updatePassword l date user id_param site username password d)) \<noteq> 200"
  shows "passwords (snd (updatePassword l date user id_param site username password d))
           = passwords d"
  using assms
  by (auto simp: updatePassword_def passwords_findOne_def passwords_updateOne_def
           split: if_splits option.splits sum.splits)

lemma deletePassword_200:
  assumes "deletePassword l user id_param d = (res, d')"
    and "status res = 200"
  shows "\<exists>oid doc. ObjectId_new l id_param = Some oid
           \<and> find (\<lambda>doc. p_id doc = oid \<and> p_userId doc = jwt_id user) (passwords d) = Some doc
           \<and> res = Response 200 (Msg True ''Password deleted successfully'')
           \<and> d' = d\<lparr>passwords := delete_first (\<lambda>doc. p_id doc = oid) (passwords d),
                     calls := calls d @ [PasswordsFindOne, PasswordsDeleteOne]\<rparr>"
  using assms
  by (cases "ObjectId_new l id_param")
     (auto simp: deletePassword_def passwords_findOne_def passwords_deleteOne_def
           split: if_splits option.splits)

lemma deletePassword_not_200:
  assumes "status (fst (deletePassword l user id_param d)) \<noteq> 200"
  shows "passwords (snd (deletePassword l user id_param d)) = passwords d"
  using assms
  by (cases "ObjectId_new l id_param")
     (auto simp: deletePassword_def passwords_findOne_def passwords_deleteOne_def
           split: if_splits option.splits)

lemma find_SomeD: "find q xs = Some x \<Longrightarrow> x \<in> set xs \<and> q x"
  by (induction xs) (auto split: if_splits)

lemma map_update_frame:
  "(\<And>x. g (f x) = g x) \<Longrightarrow> map g (map (\<lambda>x. if q x then f x else x) xs) = map g xs"
  by (induction xs) auto

lemma vault_POST_201:
  assumes "verifyToken l authHeader = Inr user"
    and "vault_route l e authHeader (POST_passwords site username password) d = (res, d1)"
    and "status res = 201"
  shows "\<exists>s u. site = JStr s \<and> username = JStr u
           \<and> insert_id e \<notin> p_id ` set (passwords d)
           \<and> res = Response 201 (Inserted (insert_id e) ''Password saved successfully'')
           \<and> d1 = d\<lparr>passwords := passwords d @
                       [\<lparr>p_id = insert_id e, p_site = trim s, p_username = trim u,
                         p_password = password, p_userId = jwt_id user,
                         p_createdAt = date1 e, p_updatedAt = date2 e\<rparr>],
                     calls := calls d @ [PasswordsInsertOne]\<rparr>"
proof -
  from assms(1,2)
  have "createPassword l (date1 e) (date2 e) (insert_id e) user site username password d
          = (res, d1)"
    by (simp add: vault_route_authenticated)
  from createPassword_201 [OF this assms(3)] show ?thesis .
qed

lemma vault_PUT_200:
  assumes "verifyToken l authHeader = Inr user"
    and "distinct (map p_id (passwords d))"
    and "vault_route l e authHeader (PUT_passwords id_param site username password) d
           = (res, d1)"
    and "status res = 200"
  shows "\<exists>oid s u old. ObjectId_new l id_param = Some oid
           \<and> site = JStr s \<and> username = JStr u
           \<and> old \<in> set (passwords d) \<and> p_id old = oid \<and> p_userId old = jwt_id user
           \<and> res = Response 200 (Msg True ''Password updated successfully'')
           \<and> d1 = d\<lparr>passwords :=
                       map (\<lambda>doc. if p_id doc = oid
                                  then doc\<lparr>p_site := trim s, p_username := trim u,
                                           p_password := password, p_updatedAt := date1 e\<rparr>
                                  else doc) (passwords d),
                     calls := calls d @ [PasswordsFindOne, PasswordsUpdateOne]\<rparr>"
proof -
  from assms(1,3)
  have "updatePassword l (date1 e) user id_param site username password d = (res, d1)"
    by (simp add: vault_route_authenticated)
  from updatePassword_200 [OF this assms(4)]
  obtain oid s u old where *: "ObjectId_new l id_param = Some oid"
    "site = JStr s" "username = JStr u"
    "find (\<lambda>doc. p_id doc = oid \<and> p_userId doc = jwt_id user) (passwords d) = Some old"
    "res = Response 200 (Msg True ''Password updated successfully'')"
    "d1 = d\<lparr>passwords :=
             update_first (\<lambda>doc. p_id doc = oid)
               (\<lambda>doc. doc\<lparr>p_site := trim s, p_username := trim u,
                           p_password := password, p_updatedAt := date1 e\<rparr>) (passwords d),
           calls := calls d @ [PasswordsFindOne, PasswordsUpdateOne]\<rparr>"
    by blast
  from find_SomeD [OF *(4)]
  have "old \<in> set (passwords d)" "p_id old = oid" "p_userId old = jwt_id user"
    by simp_all
  moreover from *(6) update_first_distinct [OF assms(2)]
  have "d1 = d\<lparr>passwords :=
             map (\<lambda>doc. if p_id doc = oid
                        then doc\<lparr>p_site := trim s, p_username := trim u,
                                 p_password := password, p_updatedAt := date1 e\<rparr>
                        else doc) (passwords d),
           calls := calls d @ [PasswordsFindOne, PasswordsUpdateOne]\<rparr>"
    by simp
  ultimately show ?thesis
    using *(1-3,5) by blast
qed


subsection \<open>Records that are missing or belong to someone else\<close>

text \<open>
  Claim C1, as amended. The \<open>passwords\<close> collection holds one document per \<open>_id\<close>. Take
  an authenticated request whose id is well-formed and names either no record or a
  record whose \<open>userId\<close> is not the caller's. A DELETE is answered 404 "Password not found
  or access denied". A PUT is answered the same 404 when its three fields are present
  and its site is a string of trimmed length at least 3. It is answered 400 when a field
  is missing or empty, and 400 when the site is a string shorter than that, because the
  body is checked before the record is looked up. Whatever the body, the answer is never
  200 and never 403, and the \<open>passwords\<close> collection is left as it was.
\<close>

theorem missing_or_foreign_record_not_found:
  assumes "verifyToken l authHeader = Inr user"
    and "distinct (map p_id (passwords d))"
    and "ObjectId_new l id_param = Some oid"
    and "oid \<notin> p_id ` set (passwords d)
         \<or> (\<exists>doc\<in>set (passwords d). p_id doc = oid \<and> p_userId doc \<noteq> jwt_id user)"
  shows "vault_route l e authHeader (DELETE_passwords id_param) d =
           (Response 404 (Msg False ''Password not found or access denied''),
            d\<lparr>calls := calls d @ [PasswordsFindOne]\<rparr>)
         \<and> (js_not site \<or> js_not username \<or> js_not password \<longrightarrow>
              vault_route l e authHeader (PUT_passwords id_param site username password) d =
                (Response 400 (Msg False ''Site, username, and password are required''), d))
         \<and> (s \<noteq> [] \<and> \<not> js_not username \<and> \<not> js_not password \<and> length (trim s) < 3 \<longrightarrow>
              vault_route l e authHeader (PUT_passwords id_param (JStr s) username password) d =
                (Response 400 (Msg False ''Site must be at least 3 characters long''), d))
         \<and> (s \<noteq> [] \<and> \<not> js_not username \<and> \<not> js_not password \<and> 3 \<le> length (trim s) \<longrightarrow>
              vault_route l e authHeader (PUT_passwords id_param (JStr s) username password) d =
                (Response 404 (Msg False ''Password not found or access denied''),
                 d\<lparr>calls := calls d @ [PasswordsFindOne]\<rparr>))
         \<and> status (fst (vault_route l e authHeader
                            (PUT_passwords id_param site username password) d)) \<noteq> 200
         \<and> status (fst (vault_route l e authHeader
                            (PUT_passwords id_param site username password) d)) \<noteq> 403
         \<and> passwords (snd (vault_route l e authHeader
                            (PUT_passwords id_param site username password) d))
             = passwords d"
proof -
  from assms(2,4)
  have none: "find (\<lambda>doc. p_id doc = oid \<and> p_userId doc = jwt_id user) (passwords d) = None"
    by (rule find_owned_None)
  have del: "vault_route l e authHeader (DELETE_passwords id_param) d =
           (Response 404 (Msg False ''Password not found or access denied''),
            d\<lparr>calls := calls d @ [PasswordsFindOne]\<rparr>)"
    using assms(1,3) none
    by (simp add: vault_route_authenticated deletePassword_not_found)
  have put: "vault_route l e authHeader (PUT_passwords id_param site username password) d =
           updatePassword l (date1 e) user id_param site username password d"
    for site username password
    using assms(1) by (simp add: vault_route_authenticated)
  show ?thesis
    using del updatePassword_required [OF assms(3)] updatePassword_short_site [OF assms(3)]
      updatePassword_not_found [OF assms(3) none]
      updatePassword_not_found_any_body [OF assms(3) none]
    by (simp add: put)
qed

theorem missing_or_foreign_record_not_found_witness:
  "verifyToken example_lib (Some ''Bearer token-bob'') = Inr bob
   \<and> ObjectId_new example_lib ''0000000000000000000000a1'' = Some 0xa1
   \<and> p_id alice_record = 0xa1
   \<and> p_userId alice_record \<noteq> jwt_id bob
   \<and> vault_route example_lib example_env (Some ''Bearer token-bob'')
        (DELETE_passwords ''0000000000000000000000a1'') alice_db =
       (Response 404 (Msg False ''Password not found or access denied''),
        alice_db\<lparr>calls := calls alice_db @ [PasswordsFindOne]\<rparr>)
   \<and> vault_route example_lib example_env (Some ''Bearer token-bob'')
        (PUT_passwords ''0000000000000000000000a1''
           (JStr ''example.org'') (JStr ''bob'') (JStr ''hunter2'')) alice_db =
       (Response 404 (Msg False ''Password not found or access denied''),
        alice_db\<lparr>calls := calls alice_db @ [PasswordsFindOne]\<rparr>)
   \<and> vault_route example_lib example_env (Some ''Bearer token-bob'')
        (PUT_passwords ''0000000000000000000000a1''
           (JStr ''ab'') (JStr ''bob'') (JStr ''hunter2'')) alice_db =
       (Response 400 (Msg False ''Site must be at least 3 characters long''), alice_db)
   \<and> vault_route example_lib example_env (Some ''Bearer token-bob'')
        (PUT_passwords ''0000000000000000000000a1''
           (JStr ''example.org'') JUndefined (JStr ''hunter2'')) alice_db =
       (Response 400 (Msg False ''Site, username, and password are required''), alice_db)"
proof -
  have wf: "distinct (map p_id (passwords alice_db))"
    by (simp add: alice_db_def)
  have foreign: "0xa1 \<notin> p_id ` set (passwords alice_db)
         \<or> (\<exists>doc\<in>set (passwords alice_db). p_id doc = 0xa1 \<and> p_userId doc \<noteq> jwt_id bob)"
    by (simp add: alice_db_def alice_record_def bob_def)
  have long: "3 \<le> length (trim ''example.org'')"
    by (simp add: trim_def is_space_def)
  have short: "length (trim ''ab'') < 3"
    by (simp add: trim_def is_space_def)
  note inst = missing_or_foreign_record_not_found
      [OF verifyToken_bob wf ObjectId_new_a1 foreign, where e = example_env]
  from inst [where site = "JStr ''example.org''" and username = "JStr ''bob''"
      and password = "JStr ''hunter2''" and s = "''example.org''"]
    inst [where site = "JStr ''example.org''" and username = "JStr ''bob''"
      and password = "JStr ''hunter2''" and s = "''ab''"]
    inst [where site = "JStr ''example.org''" and username = JUndefined
      and password = "JStr ''hunter2''" and s = "''ab''"]
    long short
  show ?thesis
    by (simp add: verifyToken_bob ObjectId_new_a1 alice_record_def bob_def)
qed

text \<open>
  The claim as stated promises 404 for every such Update. Here bob sends a PUT for
  alice's record with a two-character site: the answer is 400.
\<close>

theorem update_body_checked_before_lookup:
  "verifyToken example_lib (Some ''Bearer token-bob'') = Inr bob
   \<and> ObjectId_new example_lib ''0000000000000000000000a1'' = Some 0xa1
   \<and> p_id alice_record = 0xa1
   \<and> p_userId alice_record \<noteq> jwt_id bob
   \<and> vault_route example_lib example_env (Some ''Bearer token-bob'')
        (PUT_passwords ''0000000000000000000000a1''
           (JStr ''ab'') (JStr ''bob'') (JStr ''hunter2'')) alice_db =
       (Response 400 (Msg False ''Site must be at least 3 characters long''), alice_db)"
  by (simp add: verifyToken_bob ObjectId_new_a1 vault_route_authenticated
        updatePassword_def trim_def is_space_def alice_record_def bob_def)

subsection \<open>Listing\<close>

text \<open>
  Claim C5. An authenticated GET /api/passwords is answered 200 with exactly the stored
  records whose \<open>userId\<close> is the identity decoded from the token, each as often as it is
  stored and none of any other user, ordered by \<open>createdAt\<close> descending. The collection
  is not changed.
\<close>

theorem list_own_records_latest_first:
  assumes "verifyToken l authHeader = Inr user"
  shows "\<exists>rs d'. vault_route l e authHeader GET_passwords d = (Response 200 (Docs rs), d')
           \<and> mset rs = mset (filter (\<lambda>doc. p_userId doc = jwt_id user) (passwords d))
           \<and> set rs = {doc \<in> set (passwords d). p_userId doc = jwt_id user}
           \<and> sorted_wrt (\<lambda>a b. p_createdAt b \<le> p_createdAt a) rs
           \<and> passwords d' = passwords d"
proof -
  let ?own = "filter (\<lambda>doc. p_userId doc = jwt_id user) (passwords d)"
  let ?rs = "rev (sort_key p_createdAt ?own)"
  have "sorted (map p_createdAt (sort_key p_createdAt ?own))"
    by (rule sorted_sort_key)
  then have "sorted_wrt (\<lambda>a b. p_createdAt a \<le> p_createdAt b) (sort_key p_createdAt ?own)"
    by (simp add: sorted_map)
  then have "sorted_wrt (\<lambda>a b. p_createdAt b \<le> p_createdAt a) ?rs"
    by (simp add: sorted_wrt_rev)
  moreover have "mset ?rs = mset ?own"
    by simp
  moreover have "set ?rs = {doc \<in> set (passwords d). p_userId doc = jwt_id user}"
    by auto
  ultimately show ?thesis
    using vault_route_GET [OF assms, of e d] by simp
qed

theorem list_own_records_latest_first_witness:
  "vault_route example_lib example_env (Some ''Bearer token-alice'') GET_passwords shared_db =
     (Response 200 (Docs [alice_record2, alice_record]),
      shared_db\<lparr>calls := calls shared_db @ [PasswordsFind]\<rparr>)"
  using list_own_records_latest_first [OF verifyToken_alice, of example_env shared_db]
  by (simp add: vault_route_GET [OF verifyToken_alice] shared_db_def alice_def
        alice_record_def bob_record_def alice_record2_def)

subsection \<open>Update\<close>

text \<open>
  Claim C6, as amended. When an authenticated PUT is answered 200, the record with the
  given id, which belongs to the caller, has its site and username replaced by the
  submitted site and username with surrounding white space trimmed, its password by the
  submitted password as sent, and its \<open>updatedAt\<close> by the clock reading taken while the
  request is served. The record's \<open>_id\<close>, \<open>userId\<close> and \<open>createdAt\<close>, every other record and
  the \<open>users\<close> collection are unchanged.
\<close>

theorem update_replaces_fields_only:
  assumes "verifyToken l authHeader = Inr user"
    and "distinct (map p_id (passwords d))"
    and "vault_route l e authHeader (PUT_passwords id_param site username password) d
           = (res, d')"
    and "status res = 200"
  shows "\<exists>oid s u. ObjectId_new l id_param = Some oid
           \<and> site = JStr s \<and> username = JStr u
           \<and> (\<exists>old\<in>set (passwords d). p_id old = oid \<and> p_userId old = jwt_id user)
           \<and> passwords d' =
               map (\<lambda>doc. if p_id doc = oid
                          then doc\<lparr>p_site := trim s, p_username := trim u,
                                   p_password := password, p_updatedAt := date1 e\<rparr>
                          else doc) (passwords d)
           \<and> map p_createdAt (passwords d') = map p_createdAt (passwords d)
           \<and> map p_userId (passwords d') = map p_userId (passwords d)
           \<and> map p_id (passwords d') = map p_id (passwords d)
           \<and> users d' = users d"
proof -
  from vault_PUT_200 [OF assms]
  obtain oid s u old where *: "ObjectId_new l id_param = Some oid"
    "site = JStr s" "username = JStr u"
    "old \<in> set (passwords d)" "p_id old = oid" "p_userId old = jwt_id user"
    "d' = d\<lparr>passwords :=
             map (\<lambda>doc. if p_id doc = oid
                        then doc\<lparr>p_site := trim s, p_username := trim u,
                                 p_password := password, p_updatedAt := date1 e\<rparr>
                        else doc) (passwords d),
           calls := calls d @ [PasswordsFindOne, PasswordsUpdateOne]\<rparr>"
    by blast
  have "map p_createdAt (passwords d') = map p_createdAt (passwords d)"
    "map p_userId (passwords d') = map p_userId (passwords d)"
    "map p_id (passwords d') = map p_id (passwords d)"
    by (simp_all add: *(7) map_update_frame)
  with * show ?thesis
    by auto
qed

lemma alice_update_evaluated:
  "vault_route example_lib example_env (Some ''Bearer token-alice'')
     (PUT_passwords ''0000000000000000000000a1''
        (JStr '' example.org '') (JStr ''alice2'') (JStr '' n3w pass'')) alice_db =
     (Response 200 (Msg True ''Password updated successfully''),
      \<lparr>users = [],
       passwords =
         [\<lparr>p_id = 0xa1, p_site = ''example.org'', p_username = ''alice2'',
           p_password = JStr '' n3w pass'', p_userId = ''000000000000000000000001'',
           p_createdAt = 1000, p_updatedAt = 5000\<rparr>],
       calls = [PasswordsFindOne, PasswordsUpdateOne]\<rparr>)"
  by (simp add: vault_route_authenticated [OF verifyToken_alice] updatePassword_def
        ObjectId_new_a1 passwords_findOne_def passwords_updateOne_def trim_def is_space_def
        alice_db_def alice_record_def alice_def example_env_def)

theorem update_replaces_fields_only_witness:
  "vault_route example_lib example_env (Some ''Bearer token-alice'')
     (PUT_passwords ''0000000000000000000000a1''
        (JStr '' example.org '') (JStr ''alice2'') (JStr '' n3w pass'')) alice_db =
     (Response 200 (Msg True ''Password updated successfully''),
      \<lparr>users = [],
       passwords =
         [\<lparr>p_id = 0xa1, p_site = ''example.org'', p_username = ''alice2'',
           p_password = JStr '' n3w pass'', p_userId = ''000000000000000000000001'',
           p_createdAt = 1000, p_updatedAt = 5000\<rparr>],
       calls = [PasswordsFindOne, PasswordsUpdateOne]\<rparr>)
   \<and> passwords alice_db = [alice_record]
   \<and> p_createdAt alice_record = 1000
   \<and> p_userId alice_record = ''000000000000000000000001''"
proof -
  have wf: "distinct (map p_id (passwords alice_db))"
    by (simp add: alice_db_def)
  have ok: "status (Response 200 (Msg True ''Password updated successfully'')) = 200"
    by simp
  have old: "passwords alice_db = [alice_record] \<and> p_createdAt alice_record = 1000
      \<and> p_userId alice_record = ''000000000000000000000001''"
    by (simp add: alice_db_def alice_record_def)
  from update_replaces_fields_only [OF verifyToken_alice wf alice_update_evaluated ok]
    alice_update_evaluated old
  show ?thesis
    by simp
qed

text \<open>
  The claim as stated has the site replaced by the submitted value. A site sent with
  surrounding blanks is stored without them.
\<close>

theorem update_stores_trimmed_site:
  "vault_route example_lib example_env (Some ''Bearer token-alice'')
     (PUT_passwords ''0000000000000000000000a1''
        (JStr '' example.org '') (JStr ''alice'') (JStr ''s3cret'')) alice_db =
     (Response 200 (Msg True ''Password updated successfully''),
      \<lparr>users = [],
       passwords =
         [\<lparr>p_id = 0xa1, p_site = ''example.org'', p_username = ''alice'',
           p_password = JStr ''s3cret'', p_userId = ''000000000000000000000001'',
           p_createdAt = 1000, p_updatedAt = 5000\<rparr>],
       calls = [PasswordsFindOne, PasswordsUpdateOne]\<rparr>)
   \<and> ''example.org'' \<noteq> '' example.org ''"
  by (simp add: vault_route_authenticated [OF verifyToken_alice] updatePassword_def
        ObjectId_new_a1 passwords_findOne_def passwords_updateOne_def trim_def is_space_def
        alice_db_def alice_record_def alice_def example_env_def)

subsection \<open>Round trips through the list\<close>

lemma GET_after_POST:
  assumes "verifyToken l authHeader = Inr user"
    and "vault_route l e authHeader (POST_passwords site username password) d = (res, d1)"
    and "status res = 201"
  shows "\<exists>s u rs d2. site = JStr s \<and> username = JStr u
             \<and> vault_route l e' authHeader GET_passwords d1 = (Response 200 (Docs rs), d2)
             \<and> \<lparr>p_id = insert_id e, p_site = trim s, p_username = trim u,
                 p_password = password, p_userId = jwt_id user,
                 p_createdAt = date1 e, p_updatedAt = date2 e\<rparr>
                 \<in> set rs"
proof -
  let ?new = "\<lambda>s u. \<lparr>p_id = insert_id e, p_site = trim s, p_username = trim u,
                 p_password = password, p_userId = jwt_id user,
                 p_createdAt = date1 e, p_updatedAt = date2 e\<rparr>"
  let ?rs = "rev (sort_key p_createdAt
          (filter (\<lambda>doc. p_userId doc = jwt_id user) (passwords d1)))"
  from vault_POST_201 [OF assms]
  obtain s u where *: "site = JStr s" "username = JStr u"
    "d1 = d\<lparr>passwords := passwords d @ [?new s u],
              calls := calls d @ [PasswordsInsertOne]\<rparr>"
    by blast
  have mem: "?new s u \<in> set ?rs"
    by (simp add: *(3))
  have get: "vault_route l e' authHeader GET_passwords d1 =
      (Response 200 (Docs ?rs), d1\<lparr>calls := calls d1 @ [PasswordsFind]\<rparr>)"
    by (rule vault_route_GET [OF assms(1)])
  show ?thesis
    apply (rule exI [of _ s], rule exI [of _ u])
    apply (rule exI [of _ ?rs], rule exI [of _ "d1\<lparr>calls := calls d1 @ [PasswordsFind]\<rparr>"])
    using *(1,2) mem get apply simp
    done
qed

lemma GET_after_PUT:
  assumes "verifyToken l authHeader = Inr user"
    and wf: "distinct (map p_id (passwords d))"
    and "vault_route l e authHeader (PUT_passwords id_param site username password) d
                 = (res, d1)"
    and "status res = 200"
  shows "\<exists>oid s u old rs d2. ObjectId_new l id_param = Some oid
             \<and> site = JStr s \<and> username = JStr u
             \<and> old \<in> set (passwords d) \<and> p_id old = oid
             \<and> vault_route l e' authHeader GET_passwords d1 = (Response 200 (Docs rs), d2)
             \<and> old\<lparr>p_site := trim s, p_username := trim u, p_password := password,
                    p_updatedAt := date1 e\<rparr> \<in> set rs
             \<and> (\<forall>r\<in>set rs. p_id r = oid \<longrightarrow>
                    r = old\<lparr>p_site := trim s, p_username := trim u, p_password := password,
                            p_updatedAt := date1 e\<rparr>)"
proof -
  from vault_PUT_200 [OF assms]
  obtain oid s u old where *: "ObjectId_new l id_param = Some oid"
    "site = JStr s" "username = JStr u"
    "old \<in> set (passwords d)" "p_id old = oid" "p_userId old = jwt_id user"
    "d1 = d\<lparr>passwords :=
             map (\<lambda>doc. if p_id doc = oid
                        then doc\<lparr>p_site := trim s, p_username := trim u,
                                 p_password := password, p_updatedAt := date1 e\<rparr>
                        else doc) (passwords d),
           calls := calls d @ [PasswordsFindOne, PasswordsUpdateOne]\<rparr>"
    by blast
  let ?upd = "\<lambda>doc. doc\<lparr>p_site := trim s, p_username := trim u,
                                 p_password := password, p_updatedAt := date1 e\<rparr>"
  let ?F = "\<lambda>doc. if p_id doc = oid then ?upd doc else doc"
  let ?rs = "rev (sort_key p_createdAt
          (filter (\<lambda>doc. p_userId doc = jwt_id user) (passwords d1)))"
  have pw: "passwords d1 = map ?F (passwords d)"
    by (simp add: *(7))
  have inj: "inj_on p_id (set (passwords d))"
    using wf by (simp add: distinct_map)
  have "?F old \<in> set (map ?F (passwords d))"
    using *(4) by (simp del: if_split)
  moreover have "?F old = ?upd old"
    using *(5) by simp
  ultimately have "?upd old \<in> set (passwords d1)"
    by (simp only: pw)
  moreover have "p_userId (?upd old) = jwt_id user"
    using *(6) by simp
  ultimately have mem: "?upd old \<in> set ?rs"
    by simp
  have uniq: "r = ?upd old" if "r \<in> set ?rs" "p_id r = oid" for r
  proof -
    from that(1) have "r \<in> set (map ?F (passwords d))"
      by (simp add: pw)
    then obtain doc where doc: "doc \<in> set (passwords d)" "r = ?F doc"
      by (auto simp del: if_split)
    have "p_id (?F doc) = p_id doc"
      by simp
    with that(2) doc(2) have "p_id doc = oid"
      by simp
    with inj doc(1) *(4,5) have "doc = old"
      by (auto dest: inj_onD)
    with doc(2) *(5) show "r = ?upd old"
      by simp
  qed
  have get: "vault_route l e' authHeader GET_passwords d1 =
      (Response 200 (Docs ?rs), d1\<lparr>calls := calls d1 @ [PasswordsFind]\<rparr>)"
    by (rule vault_route_GET [OF assms(1)])
  show ?thesis
    apply (rule exI [of _ oid], rule exI [of _ s], rule exI [of _ u])
    apply (rule exI [of _ old])
    apply (rule exI [of _ ?rs], rule exI [of _ "d1\<lparr>calls := calls d1 @ [PasswordsFind]\<rparr>"])
    apply (intro conjI ballI impI)
    using * mem get uniq apply (simp_all only:)
    done
qed

lemma alice_create_evaluated:
  "vault_route example_lib example_env (Some ''Bearer token-alice'')
     (POST_passwords (JStr '' shop.example '') (JStr ''alice '') (JStr ''pa ss '')) alice_db =
     (Response 201 (Inserted 0xb2 ''Password saved successfully''),
      \<lparr>users = [],
       passwords =
         [alice_record,
          \<lparr>p_id = 0xb2, p_site = ''shop.example'', p_username = ''alice'',
           p_password = JStr ''pa ss '', p_userId = ''000000000000000000000001'',
           p_createdAt = 5000, p_updatedAt = 5001\<rparr>],
       calls = [PasswordsInsertOne]\<rparr>)"
  by (simp add: vault_route_authenticated [OF verifyToken_alice] createPassword_def
        passwords_insertOne_def js_lt_def js_ToNumber_def trim_def is_space_def
        alice_db_def alice_record_def alice_def example_env_def)

lemma alice_list_after_create:
  "vault_route example_lib example_env (Some ''Bearer token-alice'') GET_passwords
     \<lparr>users = [],
      passwords =
        [alice_record,
         \<lparr>p_id = 0xb2, p_site = ''shop.example'', p_username = ''alice'',
          p_password = JStr ''pa ss '', p_userId = ''000000000000000000000001'',
          p_createdAt = 5000, p_updatedAt = 5001\<rparr>],
      calls = [PasswordsInsertOne]\<rparr> =
     (Response 200
        (Docs [\<lparr>p_id = 0xb2, p_site = ''shop.example'', p_username = ''alice'',
                p_password = JStr ''pa ss '', p_userId = ''000000000000000000000001'',
                p_createdAt = 5000, p_updatedAt = 5001\<rparr>,
               alice_record]),
      \<lparr>users = [],
       passwords =
        [alice_record,
         \<lparr>p_id = 0xb2, p_site = ''shop.example'', p_username = ''alice'',
          p_password = JStr ''pa ss '', p_userId = ''000000000000000000000001'',
          p_createdAt = 5000, p_updatedAt = 5001\<rparr>],
       calls = [PasswordsInsertOne, PasswordsFind]\<rparr>)"
  by (simp add: vault_route_GET [OF verifyToken_alice] alice_record_def alice_def)

lemma alice_list_after_update:
  "vault_route example_lib example_env (Some ''Bearer token-alice'') GET_passwords
     \<lparr>users = [],
       passwords =
         [\<lparr>p_id = 0xa1, p_site = ''example.org'', p_username = ''alice2'',
           p_password = JStr '' n3w pass'', p_userId = ''000000000000000000000001'',
           p_createdAt = 1000, p_updatedAt = 5000\<rparr>],
       calls = [PasswordsFindOne, PasswordsUpdateOne]\<rparr> =
     (Response 200
        (Docs [\<lparr>p_id = 0xa1, p_site = ''example.org'', p_username = ''alice2'',
           p_password = JStr '' n3w pass'', p_userId = ''000000000000000000000001'',
           p_createdAt = 1000, p_updatedAt = 5000\<rparr>]),
      \<lparr>users = [],
       passwords =
         [\<lparr>p_id = 0xa1, p_site = ''example.org'', p_username = ''alice2'',
           p_password = JStr '' n3w pass'', p_userId = ''000000000000000000000001'',
           p_createdAt = 1000, p_updatedAt = 5000\<rparr>],
       calls = [PasswordsFindOne, PasswordsUpdateOne, PasswordsFind]\<rparr>)"
  by (simp add: vault_route_GET [OF verifyToken_alice] alice_def)

lemma alice_list_shared:
  "vault_route example_lib example_env (Some ''Bearer token-alice'') GET_passwords shared_db =
     (Response 200 (Docs [alice_record2, alice_record]),
      shared_db\<lparr>calls := calls shared_db @ [PasswordsFind]\<rparr>)"
  by (simp add: vault_route_GET [OF verifyToken_alice] shared_db_def alice_def
        alice_record_def bob_record_def alice_record2_def)




subsection \<open>Passwords are returned as stored\<close>

text \<open>
  Claim C10. The body of the answer to an authenticated GET is the list of the caller's
  stored documents themselves, each with its \<open>_id\<close>, site, username, password, \<open>userId\<close>,
  \<open>createdAt\<close> and \<open>updatedAt\<close> as they are in the collection. The password in the
  collection is the value submitted at Create or Update, unchanged: after a POST
  answered 201 the listed record with the generated id has the submitted password, and
  after a PUT answered 200 the listed record with the given id has it.
\<close>

theorem list_returns_stored_password_verbatim:
  assumes "verifyToken l authHeader = Inr user"
  shows "(\<exists>rs d'. vault_route l e authHeader GET_passwords d = (Response 200 (Docs rs), d')
            \<and> set rs = {doc \<in> set (passwords d). p_userId doc = jwt_id user})
       \<and> (vault_route l e authHeader (POST_passwords site username password) d = (res, d1)
            \<and> status res = 201 \<longrightarrow>
          (\<exists>rs d2.
             vault_route l e' authHeader GET_passwords d1 = (Response 200 (Docs rs), d2)
             \<and> (\<exists>r\<in>set rs. p_id r = insert_id e \<and> p_password r = password)))
       \<and> (distinct (map p_id (passwords d))
            \<and> vault_route l e authHeader (PUT_passwords id_param site username password) d
                 = (res, d1)
            \<and> status res = 200 \<longrightarrow>
          (\<exists>oid rs d2. ObjectId_new l id_param = Some oid
             \<and> vault_route l e' authHeader GET_passwords d1 = (Response 200 (Docs rs), d2)
             \<and> (\<exists>r\<in>set rs. p_id r = oid)
             \<and> (\<forall>r\<in>set rs. p_id r = oid \<longrightarrow> p_password r = password)))"
proof (intro conjI impI)
  have "set (rev (sort_key p_createdAt
          (filter (\<lambda>doc. p_userId doc = jwt_id user) (passwords d))))
        = {doc \<in> set (passwords d). p_userId doc = jwt_id user}"
    by auto
  with vault_route_GET [OF assms, of e d]
  show "\<exists>rs d'. vault_route l e authHeader GET_passwords d = (Response 200 (Docs rs), d')
            \<and> set rs = {doc \<in> set (passwords d). p_userId doc = jwt_id user}"
    by (intro exI conjI)
next
  assume a: "vault_route l e authHeader (POST_passwords site username password) d = (res, d1)
            \<and> status res = 201"
  from GET_after_POST [OF assms, of e site username password d res d1 e'] a
  obtain s u rs d2 where *:
    "vault_route l e' authHeader GET_passwords d1 = (Response 200 (Docs rs), d2)"
    "\<lparr>p_id = insert_id e, p_site = trim s, p_username = trim u, p_password = password,
      p_userId = jwt_id user, p_createdAt = date1 e, p_updatedAt = date2 e\<rparr> \<in> set rs"
    by blast
  from *(2) have "\<exists>r\<in>set rs. p_id r = insert_id e \<and> p_password r = password"
    by (rule rev_bexI) simp
  with *(1)
  show "\<exists>rs d2.
             vault_route l e' authHeader GET_passwords d1 = (Response 200 (Docs rs), d2)
             \<and> (\<exists>r\<in>set rs. p_id r = insert_id e \<and> p_password r = password)"
    by (intro exI conjI)
next
  assume a: "distinct (map p_id (passwords d))
            \<and> vault_route l e authHeader (PUT_passwords id_param site username password) d
                 = (res, d1)
            \<and> status res = 200"
  from GET_after_PUT [OF assms, of d e id_param site username password res d1 e'] a
  obtain oid s u old rs d2 where *: "ObjectId_new l id_param = Some oid"
    "vault_route l e' authHeader GET_passwords d1 = (Response 200 (Docs rs), d2)"
    "old\<lparr>p_site := trim s, p_username := trim u, p_password := password,
         p_updatedAt := date1 e\<rparr> \<in> set rs"
    "p_id old = oid"
    "\<forall>r\<in>set rs. p_id r = oid \<longrightarrow>
        r = old\<lparr>p_site := trim s, p_username := trim u, p_password := password,
                p_updatedAt := date1 e\<rparr>"
    by blast
  have "p_id (old\<lparr>p_site := trim s, p_username := trim u, p_password := password,
         p_updatedAt := date1 e\<rparr>) = oid"
    using *(4) by simp
  with *(3) have "\<exists>r\<in>set rs. p_id r = oid"
    by (rule rev_bexI)
  moreover have "p_password r = password" if "r \<in> set rs" "p_id r = oid" for r
  proof -
    from *(5) that
    have "r = old\<lparr>p_site := trim s, p_username := trim u, p_password := password,
                p_updatedAt := date1 e\<rparr>"
      by simp
    then show ?thesis by simp
  qed
  then have "\<forall>r\<in>set rs. p_id r = oid \<longrightarrow> p_password r = password"
    by simp
  ultimately
  show "\<exists>oid rs d2. ObjectId_new l id_param = Some oid
             \<and> vault_route l e' authHeader GET_passwords d1 = (Response 200 (Docs rs), d2)
             \<and> (\<exists>r\<in>set rs. p_id r = oid)
             \<and> (\<forall>r\<in>set rs. p_id r = oid \<longrightarrow> p_password r = password)"
    using *(1,2) by (intro exI conjI)
qed

theorem list_returns_stored_password_verbatim_witness:
  "vault_route example_lib example_env (Some ''Bearer token-alice'') GET_passwords shared_db =
     (Response 200 (Docs [alice_record2, alice_record]),
      shared_db\<lparr>calls := calls shared_db @ [PasswordsFind]\<rparr>)
   \<and> map p_password [alice_record2, alice_record] = [JStr ''pa ss'', JStr ''s3cret'']
   \<and> fst (vault_route example_lib example_env (Some ''Bearer token-alice'') GET_passwords
        (snd (vault_route example_lib example_env (Some ''Bearer token-alice'')
          (POST_passwords (JStr '' shop.example '') (JStr ''alice '') (JStr ''pa ss ''))
          alice_db))) =
     Response 200
        (Docs [\<lparr>p_id = 0xb2, p_site = ''shop.example'', p_username = ''alice'',
                p_password = JStr ''pa ss '', p_userId = ''000000000000000000000001'',
                p_createdAt = 5000, p_updatedAt = 5001\<rparr>,
               alice_record])
   \<and> fst (vault_route example_lib example_env (Some ''Bearer token-alice'') GET_passwords
        (snd (vault_route example_lib example_env (Some ''Bearer token-alice'')
          (PUT_passwords ''0000000000000000000000a1''
             (JStr '' example.org '') (JStr ''alice2'') (JStr '' n3w pass'')) alice_db))) =
     Response 200
        (Docs [\<lparr>p_id = 0xa1, p_site = ''example.org'', p_username = ''alice2'',
           p_password = JStr '' n3w pass'', p_userId = ''000000000000000000000001'',
           p_createdAt = 1000, p_updatedAt = 5000\<rparr>])"
proof -
  have wf: "distinct (map p_id (passwords alice_db))"
    by (simp add: alice_db_def)
  have pw: "map p_password [alice_record2, alice_record] = [JStr ''pa ss'', JStr ''s3cret'']"
    by (simp add: alice_record_def alice_record2_def)
  note inst = list_returns_stored_password_verbatim [OF verifyToken_alice,
      where e = example_env and e' = example_env]
  from inst [where d = shared_db]
    inst [where d = alice_db and site = "JStr '' shop.example ''"
      and username = "JStr ''alice ''" and password = "JStr ''pa ss ''"
      and res = "Response 201 (Inserted 0xb2 ''Password saved successfully'')"]
    inst [where d = alice_db and site = "JStr '' example.org ''"
      and username = "JStr ''alice2''"
      and password = "JStr '' n3w pass''" and id_param = "''0000000000000000000000a1''"
      and res = "Response 200 (Msg True ''Password updated successfully'')"]
    wf pw
  show ?thesis
    by (simp add: alice_list_shared alice_create_evaluated alice_update_evaluated
          alice_list_after_create alice_list_after_update)
qed

subsection \<open>Login\<close>

lemma lower_char_eval:
  "lower_char CHR ''A'' = CHR ''a''" "lower_char CHR ''X'' = CHR ''x''"
  "lower_char CHR ''N'' = CHR ''n''"
  "lower_char CHR ''a'' = CHR ''a''" "lower_char CHR ''b'' = CHR ''b''"
  "lower_char CHR ''c'' = CHR ''c''" "lower_char CHR ''d'' = CHR ''d''"
  "lower_char CHR ''e'' = CHR ''e''" "lower_char CHR ''h'' = CHR ''h''"
  "lower_char CHR ''i'' = CHR ''i''" "lower_char CHR ''l'' = CHR ''l''"
  "lower_char CHR ''m'' = CHR ''m''" "lower_char CHR ''n'' = CHR ''n''"
  "lower_char CHR ''o'' = CHR ''o''" "lower_char CHR ''r'' = CHR ''r''"
  "lower_char CHR ''t'' = CHR ''t''" "lower_char CHR ''x'' = CHR ''x''"
  "lower_char CHR ''y'' = CHR ''y''"
  "lower_char CHR ''@'' = CHR ''@''" "lower_char CHR ''.'' = CHR ''.''"
  by (simp_all add: lower_char_def char_of_eq_iff)

lemma validateEmail_string: "validateEmail l (JStr e) = Inr (emailRegex e)"
  by (simp add: validateEmail_def js_ToString_def)

lemma login_no_such_user:
  assumes "e \<noteq> []" "emailRegex e" "\<not> js_not password"
    and "toLowerCase e \<notin> u_email ` set (users d)"
  shows "login l (JStr e) password d =
           (Response 401 (Msg False ''Invalid email or password''),
            d\<lparr>calls := calls d @ [UsersFindOne]\<rparr>)"
proof -
  from assms(4) have "\<not> (\<exists>x. x \<in> set (users d) \<and> u_email x = toLowerCase e)"
    by (metis imageI)
  then have "find (\<lambda>x. u_email x = toLowerCase e) (users d) = None"
    by (simp add: find_None_iff)
  with assms(1-3) show ?thesis
    by (simp add: login_def validateEmail_string users_findOne_def)
qed

lemma login_wrong_password:
  assumes "e \<noteq> []" "emailRegex e" "p \<noteq> []"
    and "find (\<lambda>x. u_email x = toLowerCase e) (users d) = Some x"
    and "\<not> bcrypt_compare l p (u_password x)"
  shows "login l (JStr e) (JStr p) d =
           (Response 401 (Msg False ''Invalid email or password''),
            d\<lparr>calls := calls d @ [UsersFindOne]\<rparr>)"
  using assms by (simp add: login_def validateEmail_string users_findOne_def)

text \<open>
  For an email that passes the pattern and a password that is a non-empty string, the
  unknown email and the wrong password are answered alike.
\<close>

lemma login_failures_alike_for_strings:
  assumes "e \<noteq> []" and "emailRegex e" and "p \<noteq> []" and "p' \<noteq> []"
    and "toLowerCase e \<notin> u_email ` set (users d)"
    and "find (\<lambda>x. u_email x = toLowerCase e) (users d') = Some x"
    and "\<not> bcrypt_compare l p' (u_password x)"
  shows "fst (login l (JStr e) (JStr p) d) = fst (login l (JStr e) (JStr p') d')"
  using login_no_such_user [of e "JStr p" d l] login_wrong_password [OF assms(1,2,4,6,7)]
    assms(1,2,3,5)
  by simp

text \<open>
  A password that is present but not a string is answered 401 when the email is unknown,
  and reaches \<open>bcrypt.compare\<close> when the email is known: the call is rejected and the
  handler's \<open>catch\<close> answers 500.
\<close>

lemma login_password_not_a_string:
  assumes "e \<noteq> []" "emailRegex e" "\<not> js_not password" "\<forall>p. password \<noteq> JStr p"
    and "find (\<lambda>x. u_email x = toLowerCase e) (users d) = Some x"
  shows "login l (JStr e) password d =
           (Response 500 (Msg False ''Internal server error''),
            d\<lparr>calls := calls d @ [UsersFindOne]\<rparr>)"
  using assms
  by (cases password) (simp_all add: login_def validateEmail_string users_findOne_def)

text \<open>
  Claim C2 does not hold of the code. With the password 12345 sent as a number, a login
  for an email that no user has is answered 401 "Invalid email or password", and a login
  for alice's email is answered 500 "Internal server error": the two responses tell
  whether the email exists.
\<close>

theorem login_numeric_password_reveals_user:
  "login example_lib (JStr ''alice@x.com'') (JNum 12345) empty_db =
     (Response 401 (Msg False ''Invalid email or password''),
      \<lparr>users = [], passwords = [], calls = [UsersFindOne]\<rparr>)
   \<and> login example_lib (JStr ''alice@x.com'') (JNum 12345) users_db =
     (Response 500 (Msg False ''Internal server error''),
      \<lparr>users = [alice_user], passwords = [], calls = [UsersFindOne]\<rparr>)
   \<and> u_email alice_user = ''alice@x.com''"
  by (simp add: login_def validateEmail_string emailRegex_def atom_char_def is_space_def
        toLowerCase_def lower_char_eval users_findOne_def
        empty_db_def users_db_def alice_user_def)

subsection \<open>Registration\<close>

text \<open>
  Claim C3 does not hold of the code. The duplicate check compares the stored username
  with the lower-cased submitted one, but the stored username is the trimmed submitted
  one, not lower-cased. So after "Alice" has registered, a second registration as
  "Alice" with another email finds no user whose username is "alice" and is answered 201:
  two users now carry the same username.
\<close>

theorem register_accepts_username_in_use:
  "register example_lib 900 1 (JStr ''Alice'') (JStr ''alice@x.com'') (JStr ''secret1'')
     empty_db =
     (Response 201 (Registered ''User registered successfully'' 1),
      \<lparr>users = [alice_user], passwords = [], calls = [UsersFindOne, UsersInsertOne]\<rparr>)
   \<and> register example_lib 950 2 (JStr ''Alice'') (JStr ''other@x.com'') (JStr ''secret1'')
       users_db =
     (Response 201 (Registered ''User registered successfully'' 2),
      \<lparr>users =
         [alice_user,
          \<lparr>u_id = 2, u_username = ''Alice'', u_email = ''other@x.com'',
           u_password = ''$2a$12$1terces'', u_createdAt = 950\<rparr>],
       passwords = [], calls = [UsersFindOne, UsersInsertOne]\<rparr>)
   \<and> u_username alice_user = ''Alice''"
  by (simp add: register_def validateEmail_string emailRegex_def atom_char_def is_space_def
        validateUsername_def validatePassword_def js_ge_def js_ToNumber_def
        trim_def toLowerCase_def lower_char_eval
        users_findOne_def users_insertOne_def example_lib_def example_bcrypt_hash_def
        empty_db_def users_db_def alice_user_def)

text \<open>
  The message names the field by which the first matching user matches: when one user
  holds the username and a later one the email, the answer names the username.
\<close>

lemma register_names_first_match:
  "register example_lib 950 4 (JStr ''bob'') (JStr ''carol@x.com'') (JStr ''secret1'')
     two_users_db =
     (Response 400 (Msg False ''Username already exists''),
      two_users_db\<lparr>calls := calls two_users_db @ [UsersFindOne]\<rparr>)
   \<and> u_email carol_user = toLowerCase ''carol@x.com''"
  by (simp add: register_def validateEmail_string emailRegex_def atom_char_def is_space_def
        validateUsername_def validatePassword_def js_ge_def js_ToNumber_def
        trim_def toLowerCase_def lower_char_eval
        users_findOne_def two_users_db_def bob_user_def carol_user_def)

subsection \<open>Validation on Update and on Create\<close>

text \<open>
  Claim C7 does not hold of the code. The POST handler rejects a username that is blank
  after trimming; the PUT handler has no such check. The same three fields that POST
  answers with 400 "Username cannot be empty" are accepted by PUT, which stores the
  empty username.
\<close>

theorem update_accepts_blank_username:
  "vault_route example_lib example_env (Some ''Bearer token-alice'')
     (POST_passwords (JStr ''example.org'') (JStr ''   '') (JStr ''s3cret'')) alice_db =
     (Response 400 (Msg False ''Username cannot be empty''), alice_db)
   \<and> vault_route example_lib example_env (Some ''Bearer token-alice'')
     (PUT_passwords ''0000000000000000000000a1''
        (JStr ''example.org'') (JStr ''   '') (JStr ''s3cret'')) alice_db =
     (Response 200 (Msg True ''Password updated successfully''),
      \<lparr>users = [],
       passwords =
         [\<lparr>p_id = 0xa1, p_site = ''example.org'', p_username = '''',
           p_password = JStr ''s3cret'', p_userId = ''000000000000000000000001'',
           p_createdAt = 1000, p_updatedAt = 5000\<rparr>],
       calls = [PasswordsFindOne, PasswordsUpdateOne]\<rparr>)"
  by (simp add: vault_route_authenticated [OF verifyToken_alice] createPassword_def
        updatePassword_def ObjectId_new_a1 passwords_findOne_def passwords_updateOne_def
        trim_def is_space_def alice_db_def alice_record_def alice_def example_env_def)

subsection \<open>Ownership\<close>

lemma map_update_first:
  "(\<And>x. g (f x) = g x) \<Longrightarrow> map g (update_first q f xs) = map g xs"
  by (induction xs) auto

lemma set_delete_first: "set (delete_first q xs) \<subseteq> set xs"
  by (induction xs) auto

lemma createPassword_body:
  "body (fst (createPassword l t1 t2 newId user site username password d)) = Inserted j m \<Longrightarrow>
     status (fst (createPassword l t1 t2 newId user site username password d)) = 201"
  by (auto simp: createPassword_def passwords_insertOne_def Let_def
           split: if_splits sum.splits)

lemma updatePassword_body:
  "body (fst (updatePassword l date user id_param site username password d)) \<noteq> Inserted j m"
  by (auto simp: updatePassword_def passwords_findOne_def
           split: if_splits option.splits sum.splits)

lemma deletePassword_body:
  "body (fst (deletePassword l user id_param d)) \<noteq> Inserted j m"
  by (cases "ObjectId_new l id_param")
     (auto simp: deletePassword_def passwords_findOne_def split: if_splits option.splits)

lemma updatePassword_frame:
  assumes "\<And>doc s u p t.
             g (doc\<lparr>p_site := s, p_username := u, p_password := p, p_updatedAt := t\<rparr>) = g doc"
  shows "map g (passwords (snd (updatePassword l date user id_param site username password d)))
           = map g (passwords d)"
proof (cases "status (fst (updatePassword l date user id_param site username password d)) = 200")
  case True
  obtain res d' where r: "updatePassword l date user id_param site username password d = (res, d')"
    by (cases "updatePassword l date user id_param site username password d")
  with True have "status res = 200" by simp
  from updatePassword_200 [OF r this] obtain oid s u where
    "d' = d\<lparr>passwords :=
             update_first (\<lambda>doc. p_id doc = oid)
               (\<lambda>doc. doc\<lparr>p_site := trim s, p_username := trim u,
                           p_password := password, p_updatedAt := date\<rparr>) (passwords d),
           calls := calls d @ [PasswordsFindOne, PasswordsUpdateOne]\<rparr>"
    by blast
  then show ?thesis
    by (simp add: r map_update_first assms)
next
  case False
  then show ?thesis
    by (simp add: updatePassword_not_200)
qed

lemma deletePassword_subset:
  "set (passwords (snd (deletePassword l user id_param d))) \<subseteq> set (passwords d)"
proof (cases "status (fst (deletePassword l user id_param d)) = 200")
  case True
  obtain res d' where r: "deletePassword l user id_param d = (res, d')"
    by (cases "deletePassword l user id_param d")
  with True have "status res = 200" by simp
  from deletePassword_200 [OF r this] obtain oid where
    "d' = d\<lparr>passwords := delete_first (\<lambda>doc. p_id doc = oid) (passwords d),
            calls := calls d @ [PasswordsFindOne, PasswordsDeleteOne]\<rparr>"
    by blast
  then show ?thesis
    by (simp add: r set_delete_first)
next
  case False
  then show ?thesis
    by (simp add: deletePassword_not_200)
qed

lemma createPassword_appends:
  "passwords (snd (createPassword l t1 t2 newId user site username password d)) = passwords d
   \<or> (\<exists>doc m. p_id doc = newId \<and> p_userId doc = jwt_id user
         \<and> newId \<notin> p_id ` set (passwords d)
         \<and> fst (createPassword l t1 t2 newId user site username password d)
             = Response 201 (Inserted newId m)
         \<and> passwords (snd (createPassword l t1 t2 newId user site username password d))
             = passwords d @ [doc])"
proof (cases "status (fst (createPassword l t1 t2 newId user site username password d)) = 201")
  case True
  obtain res d' where r: "createPassword l t1 t2 newId user site username password d = (res, d')"
    by (cases "createPassword l t1 t2 newId user site username password d")
  with True have "status res = 201" by simp
  from createPassword_201 [OF r this] obtain s u where *:
    "newId \<notin> p_id ` set (passwords d)"
    "res = Response 201 (Inserted newId ''Password saved successfully'')"
    "d' = d\<lparr>passwords := passwords d @
                       [\<lparr>p_id = newId, p_site = trim s, p_username = trim u, p_password = password,
                         p_userId = jwt_id user, p_createdAt = t1, p_updatedAt = t2\<rparr>],
                     calls := calls d @ [PasswordsInsertOne]\<rparr>"
    by blast
  let ?doc = "\<lparr>p_id = newId, p_site = trim s, p_username = trim u, p_password = password,
                         p_userId = jwt_id user, p_createdAt = t1, p_updatedAt = t2\<rparr>"
  have "p_id ?doc = newId \<and> p_userId ?doc = jwt_id user
         \<and> newId \<notin> p_id ` set (passwords d)
         \<and> fst (createPassword l t1 t2 newId user site username password d)
             = Response 201 (Inserted newId ''Password saved successfully'')
         \<and> passwords (snd (createPassword l t1 t2 newId user site username password d))
             = passwords d @ [?doc]"
    using * by (simp add: r)
  then show ?thesis
    by blast
next
  case False
  then show ?thesis
    by (simp add: createPassword_not_201)
qed

lemma vault_route_rejected:
  "verifyToken l h = Inl r \<Longrightarrow> vault_route l e h req d = (r, d)"
  by (simp add: vault_route_def)

lemma vault_route_frame:
  assumes "doc' \<in> set (passwords (snd (vault_route l e h req d)))"
  shows "(\<exists>doc\<in>set (passwords d). p_id doc = p_id doc' \<and> p_userId doc = p_userId doc')
       \<or> (\<exists>user m. verifyToken l h = Inr user \<and> p_userId doc' = jwt_id user
             \<and> p_id doc' \<notin> p_id ` set (passwords d)
             \<and> fst (vault_route l e h req d) = Response 201 (Inserted (p_id doc') m))"
proof (cases "verifyToken l h")
  case (Inl r)
  with assms have "doc' \<in> set (passwords d)"
    by (simp add: vault_route_rejected)
  then show ?thesis by blast
next
  case (Inr user)
  show ?thesis
  proof (cases req)
    case GET_passwords
    with assms Inr have "doc' \<in> set (passwords d)"
      by (simp add: vault_route_GET)
    then show ?thesis by blast
  next
    case (POST_passwords site username password)
    let ?r = "createPassword l (date1 e) (date2 e) (insert_id e) user site username password d"
    have vr: "vault_route l e h req d = ?r"
      using Inr POST_passwords by (simp add: vault_route_authenticated)
    from createPassword_appends [of l "date1 e" "date2 e" "insert_id e" user site username password d]
    consider "passwords (snd ?r) = passwords d"
      | doc m where "p_id doc = insert_id e" "p_userId doc = jwt_id user"
          "insert_id e \<notin> p_id ` set (passwords d)"
          "fst ?r = Response 201 (Inserted (insert_id e) m)"
          "passwords (snd ?r) = passwords d @ [doc]"
      by blast
    then show ?thesis
    proof cases
      case 1
      with assms vr have "doc' \<in> set (passwords d)" by simp
      then show ?thesis by blast
    next
      case 2
      from assms vr 2(5) have "doc' \<in> set (passwords d) \<or> doc' = doc"
        by auto
      then show ?thesis
      proof
        assume "doc' \<in> set (passwords d)"
        then show ?thesis by blast
      next
        assume "doc' = doc"
        with 2 vr Inr
        have "verifyToken l h = Inr user \<and> p_userId doc' = jwt_id user
             \<and> p_id doc' \<notin> p_id ` set (passwords d)
             \<and> fst (vault_route l e h req d) = Response 201 (Inserted (p_id doc') m)"
          by simp
        then show ?thesis by blast
      qed
    qed
  next
    case (PUT_passwords id_param site username password)
    let ?r = "updatePassword l (date1 e) user id_param site username password d"
    have vr: "vault_route l e h req d = ?r"
      using Inr PUT_passwords by (simp add: vault_route_authenticated)
    have "map (\<lambda>doc. (p_id doc, p_userId doc)) (passwords (snd ?r))
            = map (\<lambda>doc. (p_id doc, p_userId doc)) (passwords d)"
      by (rule updatePassword_frame) simp
    then have "set (map (\<lambda>doc. (p_id doc, p_userId doc)) (passwords (snd ?r)))
            = set (map (\<lambda>doc. (p_id doc, p_userId doc)) (passwords d))"
      by (rule arg_cong)
    then have "(\<lambda>doc. (p_id doc, p_userId doc)) ` set (passwords (snd ?r))
            = (\<lambda>doc. (p_id doc, p_userId doc)) ` set (passwords d)"
      by (simp only: set_map)
    moreover from assms vr have "doc' \<in> set (passwords (snd ?r))"
      by simp
    then have "(\<lambda>doc. (p_id doc, p_userId doc)) doc'
        \<in> (\<lambda>doc. (p_id doc, p_userId doc)) ` set (passwords (snd ?r))"
      by (rule imageI)
    ultimately have "(p_id doc', p_userId doc')
        \<in> (\<lambda>doc. (p_id doc, p_userId doc)) ` set (passwords d)"
      by simp
    then obtain x where "x \<in> set (passwords d)"
      "(p_id doc', p_userId doc') = (p_id x, p_userId x)"
      by (rule imageE)
    then have "x \<in> set (passwords d) \<and> p_id x = p_id doc' \<and> p_userId x = p_userId doc'"
      by simp
    then show ?thesis
      by blast
  next
    case (DELETE_passwords id_param)
    have vr: "vault_route l e h req d = deletePassword l user id_param d"
      using Inr DELETE_passwords by (simp add: vault_route_authenticated)
    with assms have "doc' \<in> set (passwords (snd (deletePassword l user id_param d)))"
      by simp
    with deletePassword_subset [of l user id_param d] have "doc' \<in> set (passwords d)"
      by (rule_tac subsetD)
    then show ?thesis by blast
  qed
qed

lemma vault_route_Inserted:
  assumes "verifyToken l h = Inr user"
    and "body (fst (vault_route l e h req d)) = Inserted i m"
  shows "i \<notin> p_id ` set (passwords d)
       \<and> (\<exists>doc. p_id doc = i \<and> p_userId doc = jwt_id user
             \<and> passwords (snd (vault_route l e h req d)) = passwords d @ [doc])"
proof (cases req)
  case GET_passwords
  with assms show ?thesis
    by (simp add: vault_route_GET)
next
  case (POST_passwords site username password)
  let ?r = "createPassword l (date1 e) (date2 e) (insert_id e) user site username password d"
  have vr: "vault_route l e h req d = ?r"
    using assms(1) POST_passwords by (simp add: vault_route_authenticated)
  with assms(2) have b: "body (fst ?r) = Inserted i m" by simp
  then have ok: "status (fst ?r) = 201"
    by (rule createPassword_body)
  obtain res d' where r: "?r = (res, d')"
    by (cases ?r)
  with ok have "status res = 201" by simp
  from createPassword_201 [OF r this] b r vr
  show ?thesis
    by auto
next
  case (PUT_passwords id_param site username password)
  with assms updatePassword_body show ?thesis
    by (simp add: vault_route_authenticated)
next
  case (DELETE_passwords id_param)
  with assms deletePassword_body show ?thesis
    by (simp add: vault_route_authenticated)
qed

lemma vault_step_Inserted:
  "vault_route l e h req d = (res, d') \<Longrightarrow> verifyToken l h = Inr user \<Longrightarrow>
   body res = Inserted i m \<Longrightarrow>
     vault_step l (e, h, req) (c, d) = (c(i \<mapsto> jwt_id user), d')"
  by (simp add: vault_step_def)

lemma vault_step_other:
  "vault_route l e h req d = (res, d') \<Longrightarrow>
   \<not> (\<exists>user i m. verifyToken l h = Inr user \<and> body res = Inserted i m) \<Longrightarrow>
     vault_step l (e, h, req) (c, d) = (c, d')"
  by (auto simp: vault_step_def split: sum.splits body.splits)

lemma vault_step_invariant:
  assumes "owned_by_creator st"
  shows "owned_by_creator (vault_step l ev st)"
proof -
  obtain e h req where ev: "ev = (e, h, req)"
    by (cases ev)
  obtain c d where st: "st = (c, d)"
    by (cases st)
  obtain res d' where r: "vault_route l e h req d = (res, d')"
    by (cases "vault_route l e h req d")
  from assms st have inv: "\<forall>doc\<in>set (passwords d). c (p_id doc) = Some (p_userId doc)"
    by (simp add: owned_by_creator_def list_all_iff)
  show ?thesis
  proof (cases "\<exists>user i m. verifyToken l h = Inr user \<and> body res = Inserted i m")
    case True
    then obtain user i m where u: "verifyToken l h = Inr user" and b: "body res = Inserted i m"
      by blast
    from vault_route_Inserted [OF u, of e req d i m] b r
    obtain doc where fresh: "i \<notin> p_id ` set (passwords d)"
      and doc: "p_id doc = i" "p_userId doc = jwt_id user"
      and app: "passwords d' = passwords d @ [doc]"
      by auto
    have "(c(i \<mapsto> jwt_id user)) (p_id x) = Some (p_userId x)" if "x \<in> set (passwords d)" for x
    proof -
      from that fresh have "p_id x \<noteq> i" by (metis imageI)
      with inv that show ?thesis by simp
    qed
    with doc app have "owned_by_creator (c(i \<mapsto> jwt_id user), d')"
      by (simp add: owned_by_creator_def list_all_iff)
    with vault_step_Inserted [OF r u b] ev st show ?thesis
      by simp
  next
    case False
    have "c (p_id x) = Some (p_userId x)" if "x \<in> set (passwords d')" for x
    proof -
      from that r have "x \<in> set (passwords (snd (vault_route l e h req d)))"
        by simp
      from vault_route_frame [OF this] False r inv show ?thesis
        by auto
    qed
    then have "owned_by_creator (c, d')"
      by (simp add: owned_by_creator_def list_all_iff)
    with vault_step_other [OF r False] ev st show ?thesis
      by simp
  qed
qed

lemma run_invariant:
  "owned_by_creator st \<Longrightarrow> owned_by_creator (run l evs st)"
  by (induction evs arbitrary: st) (simp_all add: vault_step_invariant)

lemma vault_route_keeps_owner:
  assumes "distinct (map p_id (passwords d))"
    and "doc \<in> set (passwords d)"
    and "doc' \<in> set (passwords (snd (vault_route l e h req d)))"
    and "p_id doc' = p_id doc"
  shows "p_userId doc' = p_userId doc"
proof -
  from assms(1) have inj: "inj_on p_id (set (passwords d))"
    by (simp add: distinct_map)
  from vault_route_frame [OF assms(3)]
  show ?thesis
  proof
    assume "\<exists>x\<in>set (passwords d). p_id x = p_id doc' \<and> p_userId x = p_userId doc'"
    then obtain x where x: "x \<in> set (passwords d)" "p_id x = p_id doc'"
      "p_userId x = p_userId doc'"
      by blast
    with inj assms(2,4) have "x = doc"
      by (auto dest: inj_onD)
    with x show ?thesis by simp
  next
    assume "\<exists>user m. verifyToken l h = Inr user \<and> p_userId doc' = jwt_id user
             \<and> p_id doc' \<notin> p_id ` set (passwords d)
             \<and> fst (vault_route l e h req d) = Response 201 (Inserted (p_id doc') m)"
    then have "p_id doc' \<notin> p_id ` set (passwords d)"
      by blast
    with assms(2,4) show ?thesis
      by (metis imageI)
  qed
qed

lemma ObjectId_new_b2:
  "ObjectId_new example_lib ''0000000000000000000000b2'' = Some 0xb2"
  by (simp add: example_lib_def example_ObjectId_new_def hex_val_def)

lemma vault_PUT_userIds:
  "map p_userId (passwords (snd (vault_route l e h (PUT_passwords i s u p) d)))
     = map p_userId (passwords d)"
proof (cases "verifyToken l h")
  case (Inl r)
  then show ?thesis by (simp add: vault_route_rejected)
next
  case (Inr user)
  then have "vault_route l e h (PUT_passwords i s u p) d
      = updatePassword l (date1 e) user i s u p d"
    by (simp add: vault_route_authenticated)
  then show ?thesis
    by (simp add: updatePassword_frame)
qed

lemma vault_DELETE_subset:
  "set (passwords (snd (vault_route l e h (DELETE_passwords i) d))) \<subseteq> set (passwords d)"
proof (cases "verifyToken l h")
  case (Inl r)
  then show ?thesis by (simp add: vault_route_rejected)
next
  case (Inr user)
  then have "vault_route l e h (DELETE_passwords i) d = deletePassword l user i d"
    by (simp add: vault_route_authenticated)
  then show ?thesis
    by (simp add: deletePassword_subset)
qed

lemma vault_POST_adds_callers_record:
  assumes "doc' \<in> set (passwords (snd (vault_route l e h (POST_passwords s u p) d)))"
  shows "doc' \<in> set (passwords d)
       \<or> (\<exists>user. verifyToken l h = Inr user \<and> p_userId doc' = jwt_id user
             \<and> p_id doc' \<notin> p_id ` set (passwords d))"
proof (cases "verifyToken l h")
  case (Inl r)
  with assms show ?thesis by (simp add: vault_route_rejected)
next
  case (Inr user)
  let ?r = "createPassword l (date1 e) (date2 e) (insert_id e) user s u p d"
  have vr: "vault_route l e h (POST_passwords s u p) d = ?r"
    using Inr by (simp add: vault_route_authenticated)
  from createPassword_appends [of l "date1 e" "date2 e" "insert_id e" user s u p d]
  consider "passwords (snd ?r) = passwords d"
    | doc where "p_id doc = insert_id e" "p_userId doc = jwt_id user"
        "insert_id e \<notin> p_id ` set (passwords d)"
        "passwords (snd ?r) = passwords d @ [doc]"
    by blast
  then show ?thesis
  proof cases
    case 1
    with assms vr show ?thesis by simp
  next
    case 2
    from assms vr 2(4) have "doc' \<in> set (passwords d) \<or> doc' = doc"
      by auto
    then show ?thesis
    proof
      assume "doc' \<in> set (passwords d)"
      then show ?thesis ..
    next
      assume "doc' = doc"
      with 2 Inr
      have "verifyToken l h = Inr user \<and> p_userId doc' = jwt_id user
             \<and> p_id doc' \<notin> p_id ` set (passwords d)"
        by simp
      then show ?thesis by blast
    qed
  qed
qed

lemma empty_owned: "owned_by_creator (Map.empty, empty_db)"
  by (simp add: owned_by_creator_def empty_db_def)

text \<open>
  Claim C9. Along every sequence of requests to the protected routes, starting from the
  empty store or from any state in which it holds, each stored record's \<open>userId\<close> is the
  decoded token identity of the caller whose Create request inserted it. Each operation
  keeps it so: an Update leaves the \<open>userId\<close> of every record as it was, a Delete leaves
  only records that were there before, and every record a Create adds carries the
  caller's identity under an id not in use. Hence, in a collection with one record per
  id, no request changes the \<open>userId\<close> stored under an id.
\<close>

theorem owner_never_reassigned:
  "(owned_by_creator st \<longrightarrow> owned_by_creator (run l evs st))
   \<and> owned_by_creator (run l evs (Map.empty, empty_db))
   \<and> map p_userId (passwords (snd (vault_route l e h (PUT_passwords i s u p) d)))
       = map p_userId (passwords d)
   \<and> set (passwords (snd (vault_route l e h (DELETE_passwords i) d))) \<subseteq> set (passwords d)
   \<and> (\<forall>doc'\<in>set (passwords (snd (vault_route l e h (POST_passwords s u p) d))).
         doc' \<in> set (passwords d)
         \<or> (\<exists>user. verifyToken l h = Inr user \<and> p_userId doc' = jwt_id user
               \<and> p_id doc' \<notin> p_id ` set (passwords d)))
   \<and> (distinct (map p_id (passwords d)) \<longrightarrow>
        (\<forall>doc\<in>set (passwords d).
           \<forall>doc'\<in>set (passwords (snd (vault_route l e h req d))).
             p_id doc' = p_id doc \<longrightarrow> p_userId doc' = p_userId doc))"
proof (intro conjI impI ballI)
  assume "owned_by_creator st"
  then show "owned_by_creator (run l evs st)"
    by (rule run_invariant)
next
  show "owned_by_creator (run l evs (Map.empty, empty_db))"
    by (rule run_invariant [OF empty_owned])
next
  show "map p_userId (passwords (snd (vault_route l e h (PUT_passwords i s u p) d)))
       = map p_userId (passwords d)"
    by (rule vault_PUT_userIds)
next
  show "set (passwords (snd (vault_route l e h (DELETE_passwords i) d))) \<subseteq> set (passwords d)"
    by (rule vault_DELETE_subset)
next
  fix doc'
  assume "doc' \<in> set (passwords (snd (vault_route l e h (POST_passwords s u p) d)))"
  then show "doc' \<in> set (passwords d)
         \<or> (\<exists>user. verifyToken l h = Inr user \<and> p_userId doc' = jwt_id user
               \<and> p_id doc' \<notin> p_id ` set (passwords d))"
    by (rule vault_POST_adds_callers_record)
next
  fix doc doc'
  assume "distinct (map p_id (passwords d))" "doc \<in> set (passwords d)"
    "doc' \<in> set (passwords (snd (vault_route l e h req d)))" "p_id doc' = p_id doc"
  then show "p_userId doc' = p_userId doc"
    by (rule vault_route_keeps_owner)
qed

lemma example_run_evaluated:
  "snd (run example_lib example_events (Map.empty, empty_db)) =
     \<lparr>users = [],
      passwords =
        [\<lparr>p_id = 0xb2, p_site = ''shop.example'', p_username = ''alice'', p_password = JStr ''pw1'',
          p_userId = ''000000000000000000000001'', p_createdAt = 5000, p_updatedAt = 5001\<rparr>],
      calls = [PasswordsInsertOne, PasswordsFindOne, PasswordsFindOne]\<rparr>
   \<and> fst (run example_lib example_events (Map.empty, empty_db)) 0xb2
       = Some ''000000000000000000000001''"
  by (simp add: example_events_def vault_step_def
        vault_route_authenticated [OF verifyToken_alice]
        vault_route_authenticated [OF verifyToken_bob] verifyToken_alice verifyToken_bob
        createPassword_def updatePassword_def deletePassword_def ObjectId_new_b2
        passwords_insertOne_def passwords_findOne_def js_lt_def js_ToNumber_def
        trim_def is_space_def
        empty_db_def example_env_def alice_def bob_def)

theorem owner_never_reassigned_witness:
  "owned_by_creator (run example_lib example_events (Map.empty, empty_db))
   \<and> snd (run example_lib example_events (Map.empty, empty_db)) =
     \<lparr>users = [],
      passwords =
        [\<lparr>p_id = 0xb2, p_site = ''shop.example'', p_username = ''alice'', p_password = JStr ''pw1'',
          p_userId = ''000000000000000000000001'', p_createdAt = 5000, p_updatedAt = 5001\<rparr>],
      calls = [PasswordsInsertOne, PasswordsFindOne, PasswordsFindOne]\<rparr>
   \<and> fst (run example_lib example_events (Map.empty, empty_db)) 0xb2
       = Some ''000000000000000000000001''
   \<and> passwords (snd (vault_route example_lib example_env (Some ''Bearer token-bob'')
        (PUT_passwords ''0000000000000000000000a1''
           (JStr ''example.org'') (JStr ''bob'') (JStr ''hunter2'')) alice_db))
       = [alice_record]"
proof -
  have start: "owned_by_creator (Map.empty, empty_db)"
    by (rule empty_owned)
  have wf: "distinct (map p_id (passwords alice_db))"
    by (simp add: alice_db_def)
  have put: "passwords (snd (vault_route example_lib example_env (Some ''Bearer token-bob'')
        (PUT_passwords ''0000000000000000000000a1''
           (JStr ''example.org'') (JStr ''bob'') (JStr ''hunter2'')) alice_db))
       = [alice_record]"
    by (simp add: vault_route_authenticated [OF verifyToken_bob] updatePassword_def
          ObjectId_new_a1 passwords_findOne_def trim_def is_space_def
          alice_db_def alice_record_def bob_def)
  from owner_never_reassigned [of "(Map.empty, empty_db)" example_lib example_events
      example_env "Some ''Bearer token-bob''" "''0000000000000000000000a1''"
      "JStr ''example.org''" "JStr ''bob''" "JStr ''hunter2''" alice_db
      "PUT_passwords ''0000000000000000000000a1''
           (JStr ''example.org'') (JStr ''bob'') (JStr ''hunter2'')"]
    start wf put example_run_evaluated
  show ?thesis
    by simp
qed

end
